theory Spec2Isabelle
  imports
    Complex_Main
    "HOL-Library.AList"
    "HOL-Library.Char_ord"
    "HOL-Library.List_Lexorder"
begin

section \<open>Python values used by the analytics tool\<close>

text \<open>
  A Python string is a \<^typ>\<open>string\<close> whose characters are the code points below 256
  (ASCII and the Latin-1 supplement). Lower-casing, splitting and stripping are modelled
  on all of them; upper-casing, which leaves this range for three letters, on ASCII only.
  Python integers are \<^typ>\<open>int\<close> or \<^typ>\<open>nat\<close>, and Python floats are \<^typ>\<open>real\<close> (exact
  arithmetic: binary rounding of floating point is not part of the model). A dictionary whose keys are fixed
  by the code is a record of optional fields (\<open>None\<close>: the key is absent); a dictionary
  built at run time is an association list in insertion order.
\<close>

datatype py_error =
  IndexError | KeyError | UnboundLocalError | StorageError | JSONDecodeError | AttributeError

text \<open>\<open>d.get(key, default)\<close> on an optional field.\<close>

definition get_or :: "'a option \<Rightarrow> 'a \<Rightarrow> 'a" where
  "get_or v d = (case v of None \<Rightarrow> d | Some x \<Rightarrow> x)"

text \<open>Sequencing of computations that may raise: the first error is the result.\<close>

definition bind_err :: "'e + 'a \<Rightarrow> ('a \<Rightarrow> 'e + 'b) \<Rightarrow> 'e + 'b" where
  "bind_err r f = (case r of Inl e \<Rightarrow> Inl e | Inr x \<Rightarrow> f x)"

text \<open>\<open>xs[i]\<close>, a negative index counting from the end: IndexError out of range.\<close>

definition py_index :: "'a list \<Rightarrow> int \<Rightarrow> py_error + 'a" where
  "py_index xs i =
     (if 0 \<le> i \<and> i < int (length xs) then Inr (xs ! nat i)
      else if i < 0 \<and> - int (length xs) \<le> i then Inr (xs ! nat (int (length xs) + i))
      else Inl IndexError)"

text \<open>
  \<open>str.lower()\<close>: the upper-case letters below 256 are \<open>A\<close> to \<open>Z\<close> and the code points
  \<open>0xC0\<close> to \<open>0xDE\<close> without the multiplication sign \<open>0xD7\<close>; each has its lower-case
  letter 32 code points higher.
\<close>

definition py_lower_char :: "char \<Rightarrow> char" where
  "py_lower_char c =
     (case map_of
             (zip (''ABCDEFGHIJKLMNOPQRSTUVWXYZ'' @
                   [CHR 0xC0, CHR 0xC1, CHR 0xC2, CHR 0xC3, CHR 0xC4, CHR 0xC5,
                   CHR 0xC6, CHR 0xC7, CHR 0xC8, CHR 0xC9, CHR 0xCA, CHR 0xCB,
                   CHR 0xCC, CHR 0xCD, CHR 0xCE, CHR 0xCF, CHR 0xD0, CHR 0xD1,
                   CHR 0xD2, CHR 0xD3, CHR 0xD4, CHR 0xD5, CHR 0xD6, CHR 0xD8,
                   CHR 0xD9, CHR 0xDA, CHR 0xDB, CHR 0xDC, CHR 0xDD, CHR 0xDE])
                  (''abcdefghijklmnopqrstuvwxyz'' @
                   [CHR 0xE0, CHR 0xE1, CHR 0xE2, CHR 0xE3, CHR 0xE4, CHR 0xE5,
                   CHR 0xE6, CHR 0xE7, CHR 0xE8, CHR 0xE9, CHR 0xEA, CHR 0xEB,
                   CHR 0xEC, CHR 0xED, CHR 0xEE, CHR 0xEF, CHR 0xF0, CHR 0xF1,
                   CHR 0xF2, CHR 0xF3, CHR 0xF4, CHR 0xF5, CHR 0xF6, CHR 0xF8,
                   CHR 0xF9, CHR 0xFA, CHR 0xFB, CHR 0xFC, CHR 0xFD, CHR 0xFE]))
             c of
        None \<Rightarrow> c
      | Some d \<Rightarrow> d)"

definition py_lower :: "string \<Rightarrow> string" where
  "py_lower s = map py_lower_char s"

text \<open>
  The characters \<open>str.split()\<close> and \<open>str.strip()\<close> treat as whitespace, below 256: tab,
  line feed, vertical tab, form feed, carriage return, the four separators \<open>0x1C\<close> to
  \<open>0x1F\<close>, the space, the next-line control \<open>0x85\<close> and the no-break space \<open>0xA0\<close>.
\<close>

definition py_isspace :: "char \<Rightarrow> bool" where
  "py_isspace c =
     (c \<in> set [CHR 0x09, CHR 0x0A, CHR 0x0B, CHR 0x0C, CHR 0x0D,
                CHR 0x1C, CHR 0x1D, CHR 0x1E, CHR 0x1F, CHR 0x20, CHR 0x85, CHR 0xA0])"

text \<open>
  \<open>str.split()\<close> with no argument: the maximal runs of non-whitespace characters, in order.
  The first argument is the token being read.
\<close>

fun split_from :: "string \<Rightarrow> string \<Rightarrow> string list" where
  "split_from w [] = (if w = [] then [] else [w])"
| "split_from w (c # cs) =
     (if py_isspace c then (if w = [] then split_from [] cs else w # split_from [] cs)
      else split_from (w @ [c]) cs)"

definition py_split :: "string \<Rightarrow> string list" where
  "py_split s = split_from [] s"

text \<open>\<open>s.lstrip(chars)\<close> and \<open>s.strip()\<close>.\<close>

definition py_lstrip :: "char \<Rightarrow> string \<Rightarrow> string" where
  "py_lstrip c s = dropWhile (\<lambda>x. x = c) s"


text \<open>\<open>s.startswith(c)\<close> for a one-character prefix.\<close>

definition startswith :: "string \<Rightarrow> char \<Rightarrow> bool" where
  "startswith s c = (case s of [] \<Rightarrow> False | x # _ \<Rightarrow> x = c)"

text \<open>A string between double quotes, as JSON writes it when nothing needs an escape.\<close>

definition quoted :: "string \<Rightarrow> string" where
  "quoted s = CHR 0x22 # s @ [CHR 0x22]"

text \<open>
  \<open>round(x, 2)\<close>: to two decimals, a tie going to the even neighbour.
\<close>

definition round_half_even :: "real \<Rightarrow> int" where
  "round_half_even x =
     (let f = \<lfloor>x\<rfloor>; d = x - of_int f
      in if d < 1 / 2 then f else if 1 / 2 < d then f + 1 else if even f then f else f + 1)"

definition round2 :: "real \<Rightarrow> real" where
  "round2 x = of_int (round_half_even (x * 100)) / 100"


section \<open>Sentiment scoring (analyzer.py, \<open>_analyze_sentiment\<close>)\<close>

definition positive_words :: "string list" where
  "positive_words =
     [''good'', ''great'', ''excellent'', ''amazing'', ''wonderful'', ''fantastic'',
      ''love'', ''like'', ''awesome'', ''brilliant'', ''outstanding'', ''perfect'',
      ''happy'', ''joy'', ''pleased'', ''satisfied'', ''delighted'', ''thrilled'',
      ''positive'', ''incredible'', ''superb'', ''marvelous'', ''fabulous'']"

definition negative_words :: "string list" where
  "negative_words =
     [''bad'', ''terrible'', ''awful'', ''horrible'', ''hate'', ''dislike'',
      ''disappointing'', ''sad'', ''angry'', ''frustrated'', ''annoyed'',
      ''negative'', ''worst'', ''pathetic'', ''useless'', ''horrific'',
      ''disgusting'', ''atrocious'', ''dreadful'', ''appalling'', ''abysmal'']"

text \<open>\<open>sum(1 for word in words if word in lexicon)\<close>.\<close>

fun sum_ones :: "string list \<Rightarrow> string list \<Rightarrow> int" where
  "sum_ones lexicon [] = 0"
| "sum_ones lexicon (word # words) =
     (if word \<in> set lexicon then 1 + sum_ones lexicon words else sum_ones lexicon words)"

definition analyze_sentiment :: "string \<Rightarrow> real" where
  "analyze_sentiment txt =
     (if txt = [] then 0
      else
        let words = py_split (py_lower txt);
            positive_count = sum_ones positive_words words;
            negative_count = sum_ones negative_words words;
            total_sentiment_words = positive_count + negative_count
        in if total_sentiment_words = 0 then 0
           else
             let sentiment_score =
                   real_of_int (positive_count - negative_count) / real_of_int total_sentiment_words
             in max (- 1) (min 1 sentiment_score))"

text \<open>
  The specification's wording, written without the functions above. Lower-casing: the
  capital letters below 256 are \<open>A\<close> to \<open>Z\<close> and the code points 192 to 222 other than the
  multiplication sign 215, and the small letter of each is 32 code points higher.
  Whitespace below 256: the code points 9 to 13, 28 to 32, 133 and 160.
\<close>

definition spec_lower_char :: "char \<Rightarrow> char" where
  "spec_lower_char c =
     (let n = of_char c :: nat
      in if (65 \<le> n \<and> n \<le> 90) \<or> (192 \<le> n \<and> n \<le> 222 \<and> n \<noteq> 215)
         then char_of (n + 32) else c)"

definition spec_isspace :: "char \<Rightarrow> bool" where
  "spec_isspace c =
     (let n = of_char c :: nat
      in (9 \<le> n \<and> n \<le> 13) \<or> (28 \<le> n \<and> n \<le> 32) \<or> n = 133 \<or> n = 160)"

text \<open>
  The whitespace-separated tokens of a text: after the leading whitespace, the longest
  run of characters that are not whitespace, then the tokens of what follows that run.
\<close>

function spec_tokens :: "string \<Rightarrow> string list" where
  "spec_tokens s =
     (if dropWhile spec_isspace s = [] then []
      else takeWhile (\<lambda>c. \<not> spec_isspace c) (dropWhile spec_isspace s)
             # spec_tokens (dropWhile (\<lambda>c. \<not> spec_isspace c) (dropWhile spec_isspace s)))"
  by pat_completeness auto
termination
proof (relation "measure length")
  show "wf (measure length)" by simp
next
  fix s :: string
  assume ne: "dropWhile spec_isspace s \<noteq> []"
  then obtain x xs where r: "dropWhile spec_isspace s = x # xs"
    by (cases "dropWhile spec_isspace s") auto
  have "\<not> spec_isspace x" using hd_dropWhile [OF ne] r by simp
  then have "dropWhile (\<lambda>c. \<not> spec_isspace c) (x # xs) = dropWhile (\<lambda>c. \<not> spec_isspace c) xs"
    by simp
  then have "length (dropWhile (\<lambda>c. \<not> spec_isspace c) (dropWhile spec_isspace s)) \<le> length xs"
    using r length_dropWhile_le [of "\<lambda>c. \<not> spec_isspace c" xs] by simp
  moreover have "length (x # xs) \<le> length s"
    using r length_dropWhile_le [of spec_isspace s] by simp
  ultimately show "(dropWhile (\<lambda>c. \<not> spec_isspace c) (dropWhile spec_isspace s), s) \<in> measure length"
    by simp
qed

declare spec_tokens.simps [simp del]

text \<open>
  The two counts: the number of whitespace-separated tokens of the lower-cased text that
  are equal to a word of the lexicon. The score: 0 for the empty text and when both
  counts are 0, else the quotient clamped to \<open>[-1, 1]\<close>.
\<close>

definition spec_count :: "string list \<Rightarrow> string \<Rightarrow> nat" where
  "spec_count lexicon txt =
     length (filter (\<lambda>w. w \<in> set lexicon) (spec_tokens (map spec_lower_char txt)))"

definition spec_sentiment :: "string \<Rightarrow> real" where
  "spec_sentiment txt =
     (let pos_count = real (spec_count positive_words txt);
          neg_count = real (spec_count negative_words txt)
      in if txt = [] \<or> pos_count + neg_count = 0 then 0
         else max (- 1) (min 1 ((pos_count - neg_count) / (pos_count + neg_count))))"


section \<open>Percentiles (analyzer.py, \<open>_calculate_percentiles\<close>)\<close>

text \<open>
  The result is the dictionary with the keys \<open>p25\<close> to \<open>p99\<close>, in the order of the source;
  each entry reads the sorted data at \<open>int(f * n)\<close>, which raises IndexError out of range.
\<close>

definition percentile_at :: "real list \<Rightarrow> real \<Rightarrow> py_error + real" where
  "percentile_at sorted_data f = py_index sorted_data \<lfloor>f * real (length sorted_data)\<rfloor>"

definition calculate_percentiles :: "real list \<Rightarrow> py_error + (string \<times> real) list" where
  "calculate_percentiles data =
     (if length data < 2 then Inr []
      else
        let sorted_data = sort data in
        bind_err (percentile_at sorted_data (25 / 100)) (\<lambda>p25.
        bind_err (percentile_at sorted_data (50 / 100)) (\<lambda>p50.
        bind_err (percentile_at sorted_data (75 / 100)) (\<lambda>p75.
        bind_err (percentile_at sorted_data (90 / 100)) (\<lambda>p90.
        bind_err (percentile_at sorted_data (95 / 100)) (\<lambda>p95.
        bind_err (percentile_at sorted_data (99 / 100)) (\<lambda>p99.
          Inr [(''p25'', p25), (''p50'', p50), (''p75'', p75),
               (''p90'', p90), (''p95'', p95), (''p99'', p99)])))))))"

text \<open>The specification's table of target fractions.\<close>

definition percentile_targets :: "(string \<times> real) list" where
  "percentile_targets =
     [(''p25'', 25 / 100), (''p50'', 50 / 100), (''p75'', 75 / 100),
      (''p90'', 90 / 100), (''p95'', 95 / 100), (''p99'', 99 / 100)]"

definition spec_percentiles :: "real list \<Rightarrow> (string \<times> real) list" where
  "spec_percentiles data =
     (if length data < 2 then []
      else map (\<lambda>(k, f). (k, sort data ! nat \<lfloor>f * real (length data)\<rfloor>)) percentile_targets)"


section \<open>Posts and platform data\<close>

text \<open>
  A post is a dictionary whose keys depend on the platform and on the path (batch or
  real time). Each key the code reads is an optional field; counters are integers.
  The field \<open>p_text\<close> is the key \<open>text\<close>.
\<close>

record post =
  p_post_id :: "string option"
  p_timestamp :: "string option"
  p_text :: "string option"
  p_title :: "string option"
  p_body :: "string option"
  p_likes :: "int option"
  p_retweets :: "int option"
  p_replies :: "int option"
  p_quotes :: "int option"
  p_views :: "int option"
  p_comments :: "int option"
  p_view_count :: "int option"
  p_like_count :: "int option"
  p_comment_count :: "int option"
  p_tags :: "string list option"
  p_hashtags :: "string list option"

text \<open>The dictionary with no key.\<close>

definition empty_post :: post where
  "empty_post =
     \<lparr>p_post_id = None, p_timestamp = None, p_text = None, p_title = None, p_body = None,
      p_likes = None, p_retweets = None, p_replies = None, p_quotes = None,
      p_views = None, p_comments = None, p_view_count = None, p_like_count = None,
      p_comment_count = None, p_tags = None, p_hashtags = None\<rparr>"

text \<open>
  The argument of \<open>analyze_engagement\<close>: the keys \<open>platform\<close>, \<open>posts\<close>, \<open>identifier\<close>
  and \<open>metrics\<close>, each of which may be absent.
\<close>

record platform_data =
  pd_platform :: "string option"
  pd_posts :: "post list option"
  pd_identifier :: "string option"
  pd_metrics :: "(string \<times> real) list option"

text \<open>\<open>not platform_data\<close>: the dictionary has no key at all.\<close>

definition pd_falsy :: "platform_data \<Rightarrow> bool" where
  "pd_falsy d =
     (pd_platform d = None \<and> pd_posts d = None \<and> pd_identifier d = None \<and> pd_metrics d = None)"

text \<open>The batch engagement scores of analyzer.py.\<close>

definition twitter_engagement :: "post \<Rightarrow> real" where
  "twitter_engagement p =
     real_of_int (get_or (p_likes p) 0 + (get_or (p_retweets p) 0 * 2) + get_or (p_replies p) 0)"

definition youtube_engagement :: "post \<Rightarrow> real" where
  "youtube_engagement p =
     (real_of_int (get_or (p_views p) 0) * (1 / 100)) + real_of_int (get_or (p_likes p) 0)
       + (real_of_int (get_or (p_comments p) 0) * (15 / 10))"


section \<open>Engagement velocity (analyzer.py, \<open>_calculate_engagement_velocity\<close>)\<close>

text \<open>
  \<open>datetime.fromisoformat(s).timestamp()\<close> belongs to the standard library and is a
  parameter \<open>fromiso\<close> of the model: \<open>None\<close> stands for the ValueError of a string that
  does not parse. The replacement of \<open>Z\<close> by \<open>+00:00\<close> is the code's own.
\<close>

definition replace_Z :: "string \<Rightarrow> string" where
  "replace_Z s = concat (map (\<lambda>c. if c = CHR ''Z'' then ''+00:00'' else [c]) s)"

definition epoch_or_zero :: "(string \<Rightarrow> real option) \<Rightarrow> post \<Rightarrow> real" where
  "epoch_or_zero fromiso p =
     (case fromiso (replace_Z (get_or (p_timestamp p) [])) of
        Some ts \<Rightarrow> ts
      | None \<Rightarrow> 0)"

definition velocity_engagement :: "string \<Rightarrow> post \<Rightarrow> real" where
  "velocity_engagement pf p =
     (if pf = ''twitter'' then twitter_engagement p
      else if pf = ''youtube'' then youtube_engagement p
      else 0)"

text \<open>The loop over the sorted posts, appending to the two lists.\<close>

fun velocity_loop ::
  "(string \<Rightarrow> real option) \<Rightarrow> string \<Rightarrow> post list \<Rightarrow> real list \<times> real list \<Rightarrow> real list \<times> real list"
where
  "velocity_loop fromiso pf [] acc = acc"
| "velocity_loop fromiso pf (p # ps) (engagements, timestamps) =
     velocity_loop fromiso pf ps
       (engagements @ [velocity_engagement pf p], timestamps @ [epoch_or_zero fromiso p])"

definition calculate_engagement_velocity ::
  "(string \<Rightarrow> real option) \<Rightarrow> post list \<Rightarrow> string \<Rightarrow> real"
where
  "calculate_engagement_velocity fromiso posts pf =
     (if length posts < 2 then 0
      else
        let sorted_posts = sort_key (\<lambda>x. get_or (p_timestamp x) []) posts;
            (engagements, timestamps) = velocity_loop fromiso pf sorted_posts ([], [])
        in if 1 < length timestamps \<and> last timestamps \<noteq> hd timestamps then
             let time_diff = last timestamps - hd timestamps;
                 engagement_diff = last engagements - hd engagements
             in if time_diff \<noteq> 0 then engagement_diff / time_diff else 0
           else 0)"


section \<open>Engagement analysis (analyzer.py, \<open>analyze_engagement\<close>)\<close>

text \<open>The functions of the \<open>statistics\<close> module, on a non-empty list.\<close>

definition statistics_mean :: "real list \<Rightarrow> real" where
  "statistics_mean xs = sum_list xs / real (length xs)"

definition statistics_median :: "real list \<Rightarrow> real" where
  "statistics_median xs =
     (let s = sort xs; n = length s
      in if odd n then s ! (n div 2) else (s ! (n div 2 - 1) + s ! (n div 2)) / 2)"

definition statistics_stdev :: "real list \<Rightarrow> real" where
  "statistics_stdev xs =
     sqrt (sum_list (map (\<lambda>x. (x - statistics_mean xs)\<^sup>2) xs) / real (length xs - 1))"

definition py_max :: "real list \<Rightarrow> real" where
  "py_max xs = fold max xs (hd xs)"

definition py_min :: "real list \<Rightarrow> real" where
  "py_min xs = fold min xs (hd xs)"

definition calculate_volatility :: "real list \<Rightarrow> real" where
  "calculate_volatility data =
     (if length data < 2 \<or> statistics_mean data = 0 then 0
      else
        let std_dev = statistics_stdev data; mean_val = statistics_mean data
        in if mean_val \<noteq> 0 then std_dev / \<bar>mean_val\<bar> else 0)"

text \<open>A float that may be \<open>float('inf')\<close>.\<close>

datatype py_float = Finite real | Infinity

definition calculate_growth_rate :: "real list \<Rightarrow> py_float" where
  "calculate_growth_rate data =
     (if length data < 2 then Finite 0
      else
        let first_val = hd data; last_val = last data
        in if first_val = 0 then (if 0 < last_val then Infinity else Finite 0)
           else Finite (((last_val - first_val) / \<bar>first_val\<bar>) * 100))"

definition round2_float :: "py_float \<Rightarrow> py_float" where
  "round2_float x = (case x of Finite r \<Rightarrow> Finite (round2 r) | Infinity \<Rightarrow> Infinity)"

text \<open>
  The result dictionary. The last five keys are present for one platform only.
\<close>

record analysis =
  a_total_posts :: nat
  a_avg_engagement :: real
  a_median_engagement :: real
  a_max_engagement :: real
  a_min_engagement :: real
  a_std_deviation :: real
  a_engagement_rate :: real
  a_engagement_velocity :: real
  a_engagement_percentiles :: "(string \<times> real) list"
  a_volatility :: real
  a_growth_rate :: py_float
  a_avg_likes :: "real option"
  a_avg_retweets :: "real option"
  a_avg_replies :: "real option"
  a_avg_views :: "real option"
  a_avg_comments :: "real option"

text \<open>\<open>round(statistics.mean(xs), 2) if xs else 0\<close>.\<close>

definition rounded_mean :: "real list \<Rightarrow> real" where
  "rounded_mean xs = (if xs \<noteq> [] then round2 (statistics_mean xs) else 0)"

definition int_field :: "(post \<Rightarrow> int option) \<Rightarrow> post list \<Rightarrow> real list" where
  "int_field key posts = map (\<lambda>post. real_of_int (get_or (key post) 0)) posts"

text \<open>
  The part of the function after the two platform branches; \<open>engagement_scores\<close> is
  bound there.
\<close>

definition engagement_summary ::
  "(string \<Rightarrow> real option) \<Rightarrow> post list \<Rightarrow> string \<Rightarrow> real list \<Rightarrow> py_error + analysis"
where
  "engagement_summary fromiso posts pf engagement_scores =
     bind_err
       (if engagement_scores \<noteq> [] then calculate_percentiles engagement_scores else Inr [])
       (\<lambda>engagement_percentiles.
          let nonempty = (engagement_scores \<noteq> []);
              engagement_rate =
                (if nonempty then sum_list engagement_scores / real (length engagement_scores)
                 else 0);
              engagement_velocity =
                (if nonempty then calculate_engagement_velocity fromiso posts pf else 0);
              volatility = (if nonempty then calculate_volatility engagement_scores else 0);
              growth_rate =
                (if nonempty then calculate_growth_rate engagement_scores else Finite 0)
          in Inr
            \<lparr>a_total_posts = length posts,
             a_avg_engagement = rounded_mean engagement_scores,
             a_median_engagement =
               (if nonempty then statistics_median engagement_scores else 0),
             a_max_engagement = (if nonempty then py_max engagement_scores else 0),
             a_min_engagement = (if nonempty then py_min engagement_scores else 0),
             a_std_deviation =
               (if 1 < length engagement_scores
                then round2 (statistics_stdev engagement_scores) else 0),
             a_engagement_rate = round2 engagement_rate,
             a_engagement_velocity = round2 engagement_velocity,
             a_engagement_percentiles = engagement_percentiles,
             a_volatility = round2 volatility,
             a_growth_rate = round2_float growth_rate,
             a_avg_likes =
               (if pf = ''twitter'' \<or> pf = ''youtube''
                then Some (rounded_mean (int_field p_likes posts)) else None),
             a_avg_retweets =
               (if pf = ''twitter'' then Some (rounded_mean (int_field p_retweets posts))
                else None),
             a_avg_replies =
               (if pf = ''twitter'' then Some (rounded_mean (int_field p_replies posts))
                else None),
             a_avg_views =
               (if pf = ''youtube''
                then Some (rounded_mean (int_field p_views posts)) else None),
             a_avg_comments =
               (if pf = ''youtube''
                then Some (rounded_mean (int_field p_comments posts)) else None)\<rparr>)"

text \<open>
  The local variable \<open>engagement_scores\<close> is assigned in the two platform branches only:
  it is \<open>None\<close> (unbound) after the chain when neither ran, and reading it raises
  UnboundLocalError. The result \<open>Inr None\<close> is the empty dictionary of the early return.
\<close>

definition analyze_engagement ::
  "(string \<Rightarrow> real option) \<Rightarrow> platform_data \<Rightarrow> py_error + analysis option"
where
  "analyze_engagement fromiso d =
     (if pd_falsy d then Inr None
      else case pd_posts d of
        None \<Rightarrow> Inr None
      | Some posts \<Rightarrow>
          (case pd_platform d of
             None \<Rightarrow> Inl KeyError
           | Some name \<Rightarrow>
               let pf = py_lower name;
                   engagement_scores =
                     (if pf = ''twitter'' then Some (map twitter_engagement posts)
                      else if pf = ''youtube'' then Some (map youtube_engagement posts)
                      else None)
               in case engagement_scores of
                    None \<Rightarrow> Inl UnboundLocalError
                  | Some scores \<Rightarrow>
                      bind_err (engagement_summary fromiso posts pf scores)
                        (\<lambda>a. Inr (Some a))))"

text \<open>
  The velocity in closed form: the slope between the first and the last post of the
  sorted list, a timestamp that does not parse counting as epoch 0.
\<close>

definition slope_velocity :: "(string \<Rightarrow> real option) \<Rightarrow> post list \<Rightarrow> string \<Rightarrow> real" where
  "slope_velocity fromiso posts pf =
     (if length posts < 2 then 0
      else
        let sorted_posts = sort_key (\<lambda>x. get_or (p_timestamp x) []) posts;
            first_post = hd sorted_posts;
            last_post = last sorted_posts
        in if epoch_or_zero fromiso last_post = epoch_or_zero fromiso first_post then 0
           else (velocity_engagement pf last_post - velocity_engagement pf first_post)
                / (epoch_or_zero fromiso last_post - epoch_or_zero fromiso first_post))"

section \<open>Trend detector (analyzer.py, \<open>TrendDetector\<close>)\<close>

text \<open>
  The detector's state: the window in seconds, the counter of live mentions and the
  timestamps kept for each normalized hashtag (both dictionaries in insertion order), and
  the threshold. \<open>time.time()\<close> is read once for the default timestamp and once in the
  clean-up; both readings are arguments. The lock serialises the calls, so a run of the
  detector is a sequence of calls.
\<close>

record trend_detector =
  time_window :: real
  hashtag_counts :: "(string \<times> nat) list"
  hashtag_timestamps :: "(string \<times> real list) list"
  trend_threshold :: nat

text \<open>\<open>TrendDetector(time_window_minutes)\<close>; the default is 10 minutes.\<close>

definition new_trend_detector :: "real \<Rightarrow> trend_detector" where
  "new_trend_detector time_window_minutes =
     \<lparr>time_window = time_window_minutes * 60, hashtag_counts = [], hashtag_timestamps = [],
      trend_threshold = 5\<rparr>"

text \<open>Reading a \<open>Counter\<close>: a missing key counts 0.\<close>

definition counter_get :: "(string \<times> nat) list \<Rightarrow> string \<Rightarrow> nat" where
  "counter_get counts k = (case map_of counts k of None \<Rightarrow> 0 | Some n \<Rightarrow> n)"

definition normalize_hashtag :: "string \<Rightarrow> string" where
  "normalize_hashtag hashtag = py_lstrip CHR ''#'' (py_lower hashtag)"

definition cleanup_old_entries :: "real \<Rightarrow> string \<Rightarrow> trend_detector \<Rightarrow> py_error + trend_detector" where
  "cleanup_old_entries current_time hashtag td =
     (case map_of (hashtag_timestamps td) hashtag of
        None \<Rightarrow> Inl KeyError
      | Some stamps \<Rightarrow>
          let valid_timestamps = filter (\<lambda>ts. current_time - ts \<le> time_window td) stamps
          in Inr (td\<lparr>hashtag_timestamps :=
                        AList.update hashtag valid_timestamps (hashtag_timestamps td),
                      hashtag_counts :=
                        AList.update hashtag (length valid_timestamps) (hashtag_counts td)\<rparr>))"

definition add_hashtag ::
  "real \<Rightarrow> real \<Rightarrow> string \<Rightarrow> real option \<Rightarrow> trend_detector \<Rightarrow> py_error + trend_detector"
where
  "add_hashtag time_at_entry time_at_cleanup hashtag timestamp td =
     (let ts = (case timestamp of None \<Rightarrow> time_at_entry | Some t \<Rightarrow> t);
          normalized_hashtag = normalize_hashtag hashtag;
          counts = AList.update normalized_hashtag
                     (counter_get (hashtag_counts td) normalized_hashtag + 1) (hashtag_counts td);
          stamps0 = (if map_of (hashtag_timestamps td) normalized_hashtag = None
                     then AList.update normalized_hashtag [] (hashtag_timestamps td)
                     else hashtag_timestamps td)
      in case map_of stamps0 normalized_hashtag of
           None \<Rightarrow> Inl KeyError
         | Some old \<Rightarrow>
             cleanup_old_entries time_at_cleanup normalized_hashtag
               (td\<lparr>hashtag_counts := counts,
                   hashtag_timestamps := AList.update normalized_hashtag (old @ [ts]) stamps0\<rparr>))"

text \<open>The slice \<open>xs[:limit]\<close>; a negative limit drops from the end.\<close>

definition slice_to :: "int \<Rightarrow> 'a list \<Rightarrow> 'a list" where
  "slice_to limit xs =
     (if 0 \<le> limit then take (nat limit) xs else take (length xs - nat (- limit)) xs)"

text \<open>
  The entries are pairs of \<open>hashtag\<close> and \<open>mention_count\<close>. The sort is stable and
  descending in the count, as \<open>list.sort(key, reverse=True)\<close> is.
\<close>

definition get_trending_hashtags :: "trend_detector \<Rightarrow> int \<Rightarrow> (string \<times> nat) list" where
  "get_trending_hashtags td limit =
     (let trending = filter (\<lambda>(hashtag, count). trend_threshold td \<le> count) (hashtag_counts td)
      in slice_to limit (sort_key (\<lambda>(hashtag, mention_count). - int mention_count) trending))"

text \<open>
  One call of \<open>add_hashtag\<close> with the two clock readings taken during it, and a
  sequence of calls on a detector.
\<close>

record hashtag_call =
  c_hashtag :: string
  c_timestamp :: "real option"
  c_time_at_entry :: real
  c_time_at_cleanup :: real

definition add_call :: "hashtag_call \<Rightarrow> trend_detector \<Rightarrow> py_error + trend_detector" where
  "add_call c td =
     add_hashtag (c_time_at_entry c) (c_time_at_cleanup c) (c_hashtag c) (c_timestamp c) td"

fun run_calls :: "hashtag_call list \<Rightarrow> trend_detector \<Rightarrow> py_error + trend_detector" where
  "run_calls [] td = Inr td"
| "run_calls (c # cs) td = bind_err (add_call c td) (run_calls cs)"

text \<open>
  The history of a hashtag in a sequence of calls: the calls that name it after
  normalization, the timestamp each call records, and the recorded timestamps that are no
  older than 600 seconds at the last of these calls.
\<close>

definition calls_for :: "string \<Rightarrow> hashtag_call list \<Rightarrow> hashtag_call list" where
  "calls_for h cs = filter (\<lambda>c. normalize_hashtag (c_hashtag c) = h) cs"

definition call_stamp :: "hashtag_call \<Rightarrow> real" where
  "call_stamp c = (case c_timestamp c of None \<Rightarrow> c_time_at_entry c | Some t \<Rightarrow> t)"

definition live_mentions :: "string \<Rightarrow> hashtag_call list \<Rightarrow> real list" where
  "live_mentions h cs =
     filter (\<lambda>ts. c_time_at_cleanup (last (calls_for h cs)) - ts \<le> 600)
       (map call_stamp (calls_for h cs))"

text \<open>The state after the calls \<open>H\<close>, described from the history.\<close>

definition td_inv :: "trend_detector \<Rightarrow> hashtag_call list \<Rightarrow> bool" where
  "td_inv td H \<longleftrightarrow>
     time_window td = 600 \<and> trend_threshold td = 5 \<and> distinct (map fst (hashtag_counts td)) \<and>
     (\<forall>h. map_of (hashtag_timestamps td) h =
            (if calls_for h H = [] then None else Some (live_mentions h H))) \<and>
     (\<forall>h. map_of (hashtag_counts td) h =
            (if calls_for h H = [] then None else Some (length (live_mentions h H))))"

text \<open>
  The timestamps recorded for the hashtag of the call \<open>c\<close> by the calls \<open>cs\<close> and \<open>c\<close>
  that are no older than 600 seconds when \<open>c\<close> cleans up, and the number of hashtags
  at or above the threshold.
\<close>

definition recent_mentions :: "hashtag_call list \<Rightarrow> hashtag_call \<Rightarrow> real list" where
  "recent_mentions cs c =
     filter (\<lambda>ts. c_time_at_cleanup c - ts \<le> 600)
       (map call_stamp (calls_for (normalize_hashtag (c_hashtag c)) (cs @ [c])))"

definition trending_count :: "trend_detector \<Rightarrow> nat" where
  "trending_count td = length (filter (\<lambda>(hashtag, count). 5 \<le> count) (hashtag_counts td))"


section \<open>Real-time posts in storage (data_storage.py)\<close>

text \<open>
  The argument of \<open>store_realtime_post\<close> has the keys \<open>platform\<close> and \<open>post_data\<close>.
  A row of the table \<open>realtime_posts\<close> has the columns of the schema; \<open>created_at\<close> is in
  seconds. The table is the list of its rows in \<open>id\<close> order, together with the
  AUTOINCREMENT sequence.
\<close>

record realtime_input =
  ri_platform :: "string option"
  ri_post_data :: "post option"

record realtime_row =
  r_id :: nat
  r_platform :: string
  r_post_id :: string
  r_content :: "string option"
  r_timestamp :: "string option"
  r_engagement_score :: real
  r_hashtags :: "string option"
  r_created_at :: int

record database =
  realtime_posts :: "realtime_row list"
  realtime_seq :: nat

text \<open>The real-time engagement score and the hashtags of a post.\<close>

definition realtime_engagement :: "string \<Rightarrow> post \<Rightarrow> real" where
  "realtime_engagement pf post =
     (if pf = ''twitter'' then
        real_of_int (get_or (p_likes post) 0)
        + real_of_int (get_or (p_retweets post) 0 * 2)
        + (real_of_int (get_or (p_replies post) 0) * (15 / 10))
        + (real_of_int (get_or (p_quotes post) 0) * (15 / 10))
      else if pf = ''youtube'' then
        (real_of_int (get_or (p_view_count post) 0) * (1 / 100))
        + (real_of_int (get_or (p_like_count post) 0) * 1)
        + (real_of_int (get_or (p_comment_count post) 0) * (15 / 10))
      else 0)"

definition extract_hashtags :: "string \<Rightarrow> post \<Rightarrow> string list" where
  "extract_hashtags pf post =
     (if pf = ''twitter'' \<and> p_text post \<noteq> None then
        filter (\<lambda>tag. startswith tag CHR ''#'') (py_split (get_or (p_text post) []))
      else if pf = ''youtube'' \<and> p_tags post \<noteq> None then
        filter (\<lambda>tag. startswith tag CHR ''#'') (get_or (p_tags post) [])
      else if p_hashtags post \<noteq> None then get_or (p_hashtags post) []
      else [])"

text \<open>
  \<open>post.get('text') or post.get('title') or post.get('body', '')\<close>: a missing key and the
  empty string are both false.
\<close>

definition truthy :: "string option \<Rightarrow> bool" where
  "truthy v = (case v of None \<Rightarrow> False | Some s \<Rightarrow> s \<noteq> [])"

definition realtime_content :: "post \<Rightarrow> string option" where
  "realtime_content post =
     (if truthy (p_text post) then p_text post
      else if truthy (p_title post) then p_title post
      else Some (get_or (p_body post) []))"

text \<open>
  What a call reads from outside: \<open>json.dumps\<close> (a library function), the synthetic id
  (\<open>realtime_\<close> followed by the current timestamp) and \<open>datetime.now().isoformat()\<close>, both
  computed whether used or not, and the engine's \<open>CURRENT_TIMESTAMP\<close>.
\<close>

record store_env =
  e_json_dumps :: "string list \<Rightarrow> string"
  e_synthetic_id :: string
  e_now_isoformat :: string
  e_current_timestamp :: int

text \<open>
  \<open>INSERT OR REPLACE INTO realtime_posts\<close>: a NULL in a NOT NULL column without default
  aborts with an integrity error; otherwise every row with the same \<open>post_id\<close> (the
  UNIQUE column) is deleted and the new row is inserted under a fresh id.
\<close>

datatype sql_error = IntegrityError

definition insert_or_replace_realtime ::
  "int \<Rightarrow> string option \<Rightarrow> string option \<Rightarrow> string option \<Rightarrow> string option \<Rightarrow> real
     \<Rightarrow> string option \<Rightarrow> database \<Rightarrow> sql_error + database"
where
  "insert_or_replace_realtime current_timestamp pf post_id content ts engagement_score hashtags db =
     (case (pf, post_id) of
        (Some pf', Some post_id') \<Rightarrow>
          (let kept = filter (\<lambda>r. r_post_id r \<noteq> post_id') (realtime_posts db);
               new_id = fold max (map r_id (realtime_posts db)) (realtime_seq db) + 1
           in Inr (db\<lparr>realtime_posts :=
                         kept @ [\<lparr>r_id = new_id, r_platform = pf', r_post_id = post_id',
                                   r_content = content, r_timestamp = ts,
                                   r_engagement_score = engagement_score,
                                   r_hashtags = hashtags,
                                   r_created_at = current_timestamp\<rparr>],
                       realtime_seq := new_id\<rparr>))
      | _ \<Rightarrow> Inl IntegrityError)"

text \<open>A database error is printed and the table is left as it was.\<close>

definition store_realtime_post :: "store_env \<Rightarrow> realtime_input \<Rightarrow> database \<Rightarrow> database" where
  "store_realtime_post env post_data db =
     (let pf = py_lower (get_or (ri_platform post_data) []);
          post = get_or (ri_post_data post_data) empty_post;
          engagement_score = realtime_engagement pf post;
          hashtags = extract_hashtags pf post;
          hashtags_str = (if hashtags \<noteq> [] then Some (e_json_dumps env hashtags) else None)
      in case insert_or_replace_realtime (e_current_timestamp env)
                (Some pf)
                (Some (get_or (p_post_id post) (e_synthetic_id env)))
                (realtime_content post)
                (Some (get_or (p_timestamp post) (e_now_isoformat env)))
                engagement_score
                hashtags_str
                db of
           Inr db' \<Rightarrow> db'
         | Inl e \<Rightarrow> db)"

text \<open>
  The \<open>post_id\<close> a call stores under, the row it computes, the \<open>post_id\<close> the post data
  carries, the rows of a table with a given \<open>post_id\<close>, the id given to the next row, and
  the invariant of the UNIQUE column.
\<close>

definition stored_post_id :: "store_env \<Rightarrow> realtime_input \<Rightarrow> string" where
  "stored_post_id env post_data =
     get_or (p_post_id (get_or (ri_post_data post_data) empty_post)) (e_synthetic_id env)"

definition stored_row :: "store_env \<Rightarrow> realtime_input \<Rightarrow> nat \<Rightarrow> realtime_row" where
  "stored_row env post_data new_id =
     (let pf = py_lower (get_or (ri_platform post_data) []);
          post = get_or (ri_post_data post_data) empty_post
      in \<lparr>r_id = new_id, r_platform = pf,
          r_post_id = get_or (p_post_id post) (e_synthetic_id env),
          r_content = realtime_content post,
          r_timestamp = Some (get_or (p_timestamp post) (e_now_isoformat env)),
          r_engagement_score = realtime_engagement pf post,
          r_hashtags =
            (if extract_hashtags pf post \<noteq> [] then Some (e_json_dumps env (extract_hashtags pf post))
             else None),
          r_created_at = e_current_timestamp env\<rparr>)"

definition rows_with :: "string \<Rightarrow> database \<Rightarrow> realtime_row list" where
  "rows_with post_id db = filter (\<lambda>r. r_post_id r = post_id) (realtime_posts db)"

definition next_id :: "database \<Rightarrow> nat" where
  "next_id db = fold max (map r_id (realtime_posts db)) (realtime_seq db) + 1"

definition one_row_per_post_id :: "database \<Rightarrow> bool" where
  "one_row_per_post_id db = distinct (map r_post_id (realtime_posts db))"

definition carried_post_id :: "realtime_input \<Rightarrow> string option" where
  "carried_post_id d = (case ri_post_data d of None \<Rightarrow> None | Some post \<Rightarrow> p_post_id post)"


section \<open>Trending hashtags in storage (data_storage.py, \<open>get_trending_hashtags\<close>)\<close>

text \<open>
  The first stage is the SQL query: the rows of the last \<open>hours\<close> hours with a non-NULL
  \<open>hashtags\<close> column, grouped by that column, with the size of each group, ordered by size
  descending and cut to \<open>limit\<close> groups (a negative LIMIT does not cut). SQL leaves the
  order of groups of equal size open; the model takes them in the order of the grouping
  column. A negative \<open>hours\<close> gives the modifier \<open>--n hours\<close>, which is NULL and selects no row.
\<close>

definition sql_limit :: "int \<Rightarrow> 'a list \<Rightarrow> 'a list" where
  "sql_limit limit xs = (if limit < 0 then xs else take (nat limit) xs)"









section \<open>Configuration (config.py)\<close>

text \<open>
  A configuration file holds a JSON document or text that is not JSON. A document is a
  value of \<open>json\<close>; an object is the dictionary \<open>json.load\<close> returns, with its keys in
  order. The fields of the configuration classes hold whatever value the document gives
  them: \<open>from_dict\<close> does not check types.
\<close>

datatype json =
  JNull | JBool bool | JInt int | JFloat real | JStr string | JList "json list"
  | JObj "(string \<times> json) list"

text \<open>\<open>data.get(key, default)\<close> on the items of a dictionary.\<close>

definition json_get :: "(string \<times> json) list \<Rightarrow> string \<Rightarrow> json \<Rightarrow> json" where
  "json_get kvs k d = (case map_of kvs k of None \<Rightarrow> d | Some v \<Rightarrow> v)"

record TwitterConfig =
  tw_bearer_token :: json
  tw_api_key :: json
  tw_api_secret :: json
  tw_access_token :: json
  tw_access_token_secret :: json

record YouTubeConfig =
  yt_api_key :: json

record PersonalTrackingConfig =
  pt_enable_viewing_tracking :: json
  pt_max_viewing_history_days :: json
  pt_recommendation_update_interval :: json
  pt_privacy_mode :: json
  pt_browser_extension_api_key :: json

record AppConfig =
  cfg_twitter :: TwitterConfig
  cfg_youtube :: YouTubeConfig
  cfg_personal_tracking :: PersonalTrackingConfig
  cfg_database_path :: json
  cfg_report_directory :: json
  cfg_max_posts_per_request :: json
  cfg_request_delay :: json

text \<open>
  \<open>create_default_config\<close> writes six credential strings into the default document. In
  config.py they are literals shaped like live secrets; they are not repeated here. The
  model takes them as the parameter \<open>ph\<close>, and the properties below use of them only that
  they are not empty, as is the case of the six literals.
\<close>

record placeholder_literals =
  ph_bearer_token :: string
  ph_api_key :: string
  ph_api_secret :: string
  ph_access_token :: string
  ph_access_token_secret :: string
  ph_youtube_api_key :: string

text \<open>\<open>from_dict\<close>: calling \<open>get\<close> on a value that is not a dictionary raises AttributeError.\<close>

definition TwitterConfig_from_dict :: "json \<Rightarrow> py_error + TwitterConfig" where
  "TwitterConfig_from_dict data =
     (case data of
        JObj kvs \<Rightarrow>
          Inr \<lparr>tw_bearer_token = json_get kvs ''bearer_token'' (JStr []),
               tw_api_key = json_get kvs ''api_key'' (JStr []),
               tw_api_secret = json_get kvs ''api_secret'' (JStr []),
               tw_access_token = json_get kvs ''access_token'' (JStr []),
               tw_access_token_secret = json_get kvs ''access_token_secret'' (JStr [])\<rparr>
      | _ \<Rightarrow> Inl AttributeError)"

definition YouTubeConfig_from_dict :: "json \<Rightarrow> py_error + YouTubeConfig" where
  "YouTubeConfig_from_dict data =
     (case data of
        JObj kvs \<Rightarrow> Inr \<lparr>yt_api_key = json_get kvs ''api_key'' (JStr [])\<rparr>
      | _ \<Rightarrow> Inl AttributeError)"

text \<open>The document \<open>create_default_config\<close> writes, and the files of the file system.\<close>

definition default_config :: "placeholder_literals \<Rightarrow> json" where
  "default_config ph =
     JObj
       [(''twitter'',
         JObj [(''bearer_token'', JStr (ph_bearer_token ph)),
               (''api_key'', JStr (ph_api_key ph)),
               (''api_secret'', JStr (ph_api_secret ph)),
               (''access_token'', JStr (ph_access_token ph)),
               (''access_token_secret'', JStr (ph_access_token_secret ph))]),
        (''youtube'', JObj [(''api_key'', JStr (ph_youtube_api_key ph))]),
        (''enable_viewing_tracking'', JBool True),
        (''max_viewing_history_days'', JInt 30),
        (''recommendation_update_interval'', JInt 300),
        (''privacy_mode'', JBool False),
        (''browser_extension_api_key'', JStr []),
        (''content_discovery_api_key'', JStr []),
        (''database_path'', JStr ''social_media_data.db''),
        (''report_directory'', JStr ''reports''),
        (''max_posts_per_request'', JInt 50),
        (''request_delay'', JFloat 1)]"

datatype file_content = JsonText json | OtherText

type_synonym filesystem = "string \<Rightarrow> file_content option"

definition create_default_config :: "placeholder_literals \<Rightarrow> string \<Rightarrow> filesystem \<Rightarrow> filesystem" where
  "create_default_config ph config_path fs = fs(config_path \<mapsto> JsonText (default_config ph))"

definition create_default_config_obj :: AppConfig where
  "create_default_config_obj =
     \<lparr>cfg_twitter =
        \<lparr>tw_bearer_token = JStr [], tw_api_key = JStr [], tw_api_secret = JStr [],
         tw_access_token = JStr [], tw_access_token_secret = JStr []\<rparr>,
      cfg_youtube = \<lparr>yt_api_key = JStr []\<rparr>,
      cfg_personal_tracking =
        \<lparr>pt_enable_viewing_tracking = JBool True, pt_max_viewing_history_days = JInt 30,
         pt_recommendation_update_interval = JInt 300, pt_privacy_mode = JBool False,
         pt_browser_extension_api_key = JStr []\<rparr>,
      cfg_database_path = JStr ''social_media_data.db'',
      cfg_report_directory = JStr ''reports'',
      cfg_max_posts_per_request = JInt 50,
      cfg_request_delay = JFloat 1\<rparr>"

text \<open>The part of \<open>load_from_file\<close> that builds the configuration from the parsed document.\<close>

definition config_of_json :: "json \<Rightarrow> py_error + AppConfig" where
  "config_of_json data =
     (case data of
        JObj kvs \<Rightarrow>
          bind_err (TwitterConfig_from_dict (json_get kvs ''twitter'' (JObj []))) (\<lambda>twitter_config.
          bind_err (YouTubeConfig_from_dict (json_get kvs ''youtube'' (JObj []))) (\<lambda>youtube_config.
            Inr \<lparr>cfg_twitter = twitter_config,
                 cfg_youtube = youtube_config,
                 cfg_personal_tracking =
                   \<lparr>pt_enable_viewing_tracking = json_get kvs ''enable_viewing_tracking'' (JBool True),
                    pt_max_viewing_history_days = json_get kvs ''max_viewing_history_days'' (JInt 30),
                    pt_recommendation_update_interval =
                      json_get kvs ''recommendation_update_interval'' (JInt 300),
                    pt_privacy_mode = json_get kvs ''privacy_mode'' (JBool False),
                    pt_browser_extension_api_key = json_get kvs ''browser_extension_api_key'' (JStr [])\<rparr>,
                 cfg_database_path = json_get kvs ''database_path'' (JStr ''social_media_data.db''),
                 cfg_report_directory = json_get kvs ''report_directory'' (JStr ''reports''),
                 cfg_max_posts_per_request = json_get kvs ''max_posts_per_request'' (JInt 50),
                 cfg_request_delay = json_get kvs ''request_delay'' (JFloat 1)\<rparr>))
      | _ \<Rightarrow> Inl AttributeError)"

text \<open>
  \<open>load_from_file\<close> returns the configuration or the error raised, and the file system
  after the call.
\<close>

definition load_from_file ::
  "placeholder_literals \<Rightarrow> string \<Rightarrow> filesystem \<Rightarrow> (py_error + AppConfig) \<times> filesystem"
where
  "load_from_file ph config_path fs =
     (case fs config_path of
        None \<Rightarrow> (Inr create_default_config_obj, create_default_config ph config_path fs)
      | Some OtherText \<Rightarrow> (Inl JSONDecodeError, fs)
      | Some (JsonText data) \<Rightarrow> (config_of_json data, fs))"

text \<open>The default configuration object with the six literals as its credentials.\<close>

definition placeholder_config :: "placeholder_literals \<Rightarrow> AppConfig" where
  "placeholder_config ph =
     create_default_config_obj
       \<lparr>cfg_twitter :=
          \<lparr>tw_bearer_token = JStr (ph_bearer_token ph), tw_api_key = JStr (ph_api_key ph),
           tw_api_secret = JStr (ph_api_secret ph), tw_access_token = JStr (ph_access_token ph),
           tw_access_token_secret = JStr (ph_access_token_secret ph)\<rparr>,
        cfg_youtube := \<lparr>yt_api_key = JStr (ph_youtube_api_key ph)\<rparr>\<rparr>"


section \<open>Insights (report_generator.py and analyzer.py)\<close>

text \<open>\<open>str.capitalize()\<close> on ASCII text.\<close>

definition py_upper_char :: "char \<Rightarrow> char" where
  "py_upper_char c =
     (case map_of (zip ''abcdefghijklmnopqrstuvwxyz'' ''ABCDEFGHIJKLMNOPQRSTUVWXYZ'') c of
        None \<Rightarrow> c
      | Some d \<Rightarrow> d)"

definition py_capitalize :: "string \<Rightarrow> string" where
  "py_capitalize s = (case s of [] \<Rightarrow> [] | c # cs \<Rightarrow> py_upper_char c # py_lower cs)"

text \<open>
  The dictionary \<open>analyze_audience_demographics\<close> returns; the three counters are the
  items of \<open>most_common\<close>, in order. \<open>None\<close> for the whole record is the empty dictionary.
\<close>

record demographics =
  d_top_locations :: "(string \<times> nat) list"
  d_peak_activity_hours :: "(int \<times> nat) list"
  d_top_hashtags :: "(string \<times> nat) list"
  d_total_unique_locations :: nat
  d_most_active_hour :: "int option"

text \<open>
  An insight is a formatted sentence. It is represented by its template and the values
  the template is filled with; the rendering of the number is not modelled.
  \<^item> \<open>HighEngagement n a\<close>: "\<open>n\<close> shows high engagement (avg: \<open>a\<close>). Keep creating similar content."
  \<^item> \<open>LowEngagement n a\<close>: "\<open>n\<close> engagement is low (avg: \<open>a\<close>). Consider changing content strategy."
  \<^item> \<open>TargetRegion n l\<close>: "Most of your \<open>n\<close> audience is from \<open>l\<close>. Target content to this region."
  \<^item> \<open>TailorCommunity n l\<close>: "Most of your \<open>n\<close> audience is from \<open>l\<close>. Tailor content to this community."
  \<^item> \<open>PeakHour n h\<close>: "Your \<open>n\<close> audience is most active at \<open>h\<close>:00. Post during this time for maximum reach."
  \<^item> \<open>PopularHashtag t\<close>: "Your most popular hashtag is \<open>t\<close>. Use this and similar hashtags more often."
\<close>

datatype insight =
    HighEngagement string real
  | LowEngagement string real
  | TargetRegion string string
  | TailorCommunity string string
  | PeakHour string int
  | PopularHashtag string

text \<open>\<open>next(iter(d))\<close> behind the test \<open>if d\<close>: the first key of a dictionary that is not empty.\<close>

definition first_key :: "('k \<times> 'v) list \<Rightarrow> 'k list" where
  "first_key items = (case items of [] \<Rightarrow> [] | (k, v) # rest \<Rightarrow> [k])"

text \<open>report_generator.py, \<open>_generate_platform_insights\<close>.\<close>

definition generate_platform_insights ::
  "string \<Rightarrow> analysis option \<Rightarrow> demographics option \<Rightarrow> insight list"
where
  "generate_platform_insights platform_name engagement_analysis demo =
     (let pf = py_lower platform_name;
          avg_engagement = (case engagement_analysis of None \<Rightarrow> 0 | Some a \<Rightarrow> a_avg_engagement a);
          top_locations = (case demo of None \<Rightarrow> [] | Some d \<Rightarrow> d_top_locations d);
          peak_hour = (case demo of None \<Rightarrow> None | Some d \<Rightarrow> d_most_active_hour d);
          top_hashtags = (case demo of None \<Rightarrow> [] | Some d \<Rightarrow> d_top_hashtags d)
      in (if 100 < avg_engagement then [HighEngagement (py_capitalize pf) avg_engagement]
          else if avg_engagement < 50 then [LowEngagement (py_capitalize pf) avg_engagement]
          else [])
         @ map (TargetRegion pf) (first_key top_locations)
         @ (case peak_hour of None \<Rightarrow> [] | Some h \<Rightarrow> [PeakHour pf h])
         @ map PopularHashtag (first_key top_hashtags))"

text \<open>
  analyzer.py, \<open>generate_insights\<close>: the block of the microblogging platform and the block
  of the video platform, each given the results of the two analyses it calls.
\<close>

definition twitter_insights :: "analysis option \<Rightarrow> demographics option \<Rightarrow> insight list" where
  "twitter_insights tw_engagement tw_demographics =
     (case tw_engagement of
        None \<Rightarrow> []
      | Some a \<Rightarrow>
          (let avg_engagement = a_avg_engagement a;
               top_locations = (case tw_demographics of None \<Rightarrow> [] | Some d \<Rightarrow> d_top_locations d);
               peak_hour = (case tw_demographics of None \<Rightarrow> None | Some d \<Rightarrow> d_most_active_hour d)
           in (if 100 < avg_engagement then [HighEngagement ''Twitter'' avg_engagement]
               else if avg_engagement < 50 then [LowEngagement ''Twitter'' avg_engagement]
               else [])
              @ map (TargetRegion ''Twitter'') (first_key top_locations)
              @ (case peak_hour of None \<Rightarrow> [] | Some h \<Rightarrow> [PeakHour ''Twitter'' h])))"

definition youtube_insights :: "analysis option \<Rightarrow> demographics option \<Rightarrow> insight list" where
  "youtube_insights yt_engagement yt_demographics =
     (case yt_engagement of
        None \<Rightarrow> []
      | Some a \<Rightarrow>
          (let avg_engagement = a_avg_engagement a;
               top_locations = (case yt_demographics of None \<Rightarrow> [] | Some d \<Rightarrow> d_top_locations d)
           in (if 500 < avg_engagement then [HighEngagement ''YouTube'' avg_engagement]
               else if avg_engagement < 100 then [LowEngagement ''YouTube'' avg_engagement]
               else [])
              @ map (TailorCommunity ''YouTube'') (first_key top_locations)))"

text \<open>
  \<open>generate_platform_report\<close> builds the platform data from the stored posts and metrics,
  analyses the engagement and derives the insights; an error of the analysis is an error
  of the report. The analyzer's video block runs the same analysis on its argument.
\<close>

definition report_platform_data :: "string \<Rightarrow> post list \<Rightarrow> (string \<times> real) list \<Rightarrow> platform_data" where
  "report_platform_data platform_name posts metrics =
     \<lparr>pd_platform = Some platform_name, pd_posts = Some posts, pd_identifier = None,
      pd_metrics = Some metrics\<rparr>"

definition report_insights ::
  "(string \<Rightarrow> real option) \<Rightarrow> string \<Rightarrow> post list \<Rightarrow> (string \<times> real) list \<Rightarrow> demographics option
     \<Rightarrow> py_error + insight list"
where
  "report_insights fromiso platform_name posts metrics audience_demographics =
     bind_err (analyze_engagement fromiso (report_platform_data platform_name posts metrics))
       (\<lambda>engagement_analysis.
          Inr (generate_platform_insights platform_name engagement_analysis audience_demographics))"

definition analyzer_youtube_insights ::
  "(string \<Rightarrow> real option) \<Rightarrow> platform_data \<Rightarrow> demographics option \<Rightarrow> py_error + insight list"
where
  "analyzer_youtube_insights fromiso youtube_data yt_demographics =
     bind_err (analyze_engagement fromiso youtube_data)
       (\<lambda>yt_engagement. Inr (youtube_insights yt_engagement yt_demographics))"


section \<open>Recommendation engine (recommendation_engine.py)\<close>

text \<open>
  The module \<open>random\<close> is modelled by a sequence \<open>g\<close> of raw draws and the position of the
  next draw: each call consumes one draw and maps it into its range, so that every
  outcome of the call is the image of some draw. \<open>random.choice\<close> is only called on lists
  that are not empty; \<open>random.uniform\<close> is \<open>a + (b - a) * random()\<close> with \<open>random()\<close> a multiple
  of \<open>2^-53\<close> below 1.
\<close>

type_synonym rng = "nat \<Rightarrow> int"

definition random_choice :: "rng \<Rightarrow> nat \<Rightarrow> 'a list \<Rightarrow> 'a" where
  "random_choice g i xs = xs ! nat (g i mod int (length xs))"

definition random_randint :: "rng \<Rightarrow> nat \<Rightarrow> int \<Rightarrow> int \<Rightarrow> int" where
  "random_randint g i a b = a + g i mod (b - a + 1)"

definition random_uniform :: "rng \<Rightarrow> nat \<Rightarrow> real \<Rightarrow> real \<Rightarrow> real" where
  "random_uniform g i a b = a + (b - a) * (real_of_int (g i mod 2 ^ 53) / 2 ^ 53)"

text \<open>\<open>str(n)\<close> for an integer, as the f-strings format it.\<close>

function str_digits :: "int \<Rightarrow> string" where
  "str_digits n =
     (if n < 10 then [''0123456789'' ! nat n]
      else str_digits (n div 10) @ [''0123456789'' ! nat (n mod 10)])"
  by pat_completeness auto
termination
  by (relation "measure nat") auto

declare str_digits.simps [simp del]

definition py_str :: "int \<Rightarrow> string" where
  "py_str n = (if n < 0 then CHR ''-'' # str_digits (- n) else str_digits n)"

text \<open>\<open>str.title()\<close> on ASCII text: a letter is upper case after a character that is not a letter.\<close>

definition is_alpha :: "char \<Rightarrow> bool" where
  "is_alpha c = (c \<in> set ''abcdefghijklmnopqrstuvwxyzABCDEFGHIJKLMNOPQRSTUVWXYZ'')"

fun title_from :: "bool \<Rightarrow> string \<Rightarrow> string" where
  "title_from prev [] = []"
| "title_from prev (c # cs) =
     (if is_alpha c then (if prev then py_lower_char c else py_upper_char c) # title_from True cs
      else c # title_from False cs)"

definition py_title :: "string \<Rightarrow> string" where
  "py_title s = title_from False s"

record recommendation =
  rec_id :: string
  rec_platform :: string
  rec_title :: string
  rec_description :: string
  rec_url :: string
  rec_recommended_for :: "string list"
  rec_confidence_score :: real
  rec_estimated_watch_time :: int

definition mock_platforms :: "string list" where
  "mock_platforms = [''Twitter'', ''YouTube'']"

definition mock_hashtags :: "string list" where
  "mock_hashtags =
     [''technology'', ''python'', ''socialmedia'', ''analytics'', ''data'', ''programming'',
      ''coding'', ''webdev'']"

text \<open>\<open>_generate_mock_recommendations\<close>: the body of the loop, which makes six draws, and the loop.\<close>

definition mock_recommendation :: "rng \<Rightarrow> nat \<Rightarrow> nat \<Rightarrow> recommendation" where
  "mock_recommendation g pos i =
     (let hashtag = random_choice g pos mock_hashtags;
          pf = random_choice g (pos + 1) mock_platforms
      in \<lparr>rec_id = ''mock_rec_'' @ py_str (int i) @ ''_''
                    @ py_str (random_randint g (pos + 2) 1000 9999),
          rec_platform = pf,
          rec_title = ''Mock recommended content about #'' @ hashtag @ '' on '' @ pf,
          rec_description =
            ''Based on trending topics in #'' @ hashtag @ '' and similar content'',
          rec_url = ''https://'' @ py_lower pf @ ''.com/mock/'' @ py_str (int i),
          rec_recommended_for = [hashtag, random_choice g (pos + 3) mock_hashtags],
          rec_confidence_score = round2 (random_uniform g (pos + 4) (5 / 10) (8 / 10)),
          rec_estimated_watch_time = random_randint g (pos + 5) 60 600\<rparr>)"

fun mock_loop :: "rng \<Rightarrow> nat \<Rightarrow> nat list \<Rightarrow> recommendation list" where
  "mock_loop g pos [] = []"
| "mock_loop g pos (i # rest) = mock_recommendation g pos i # mock_loop g (pos + 6) rest"

definition generate_mock_recommendations :: "rng \<Rightarrow> nat \<Rightarrow> int \<Rightarrow> recommendation list" where
  "generate_mock_recommendations g pos count = mock_loop g pos [0..<nat count]"

text \<open>
  The tables \<open>personal_viewing\<close> and \<open>user_preferences\<close>, and the two queries of
  data_storage.py the engine calls. A storage that is \<open>unavailable\<close> raises on every query.
\<close>

record viewing_row =
  v_platform :: string
  v_content_id :: string
  v_user_id :: string
  v_watch_duration :: int
  v_timestamp :: int
  v_engagement_type :: string
  v_tags :: "string option"

record preference_row =
  pr_user_id :: string
  pr_preference_type :: string
  pr_preference_value :: string
  pr_frequency :: int
  pr_last_used :: int

record personal_storage =
  personal_viewing :: "viewing_row list"
  user_preferences :: "preference_row list"
  unavailable :: bool

definition get_personal_viewing_history ::
  "personal_storage \<Rightarrow> string \<Rightarrow> int \<Rightarrow> py_error + viewing_row list" where
  "get_personal_viewing_history storage user_id limit =
     (if unavailable storage then Inl StorageError
      else Inr (sql_limit limit
                  (sort_key (\<lambda>v. - v_timestamp v)
                     (filter (\<lambda>v. v_user_id v = user_id) (personal_viewing storage)))))"

definition get_user_preferences ::
  "personal_storage \<Rightarrow> string \<Rightarrow> py_error + preference_row list" where
  "get_user_preferences storage user_id =
     (if unavailable storage then Inl StorageError
      else Inr (sort_key (\<lambda>p. - pr_frequency p)
                  (filter (\<lambda>p. pr_user_id p = user_id) (user_preferences storage))))"

text \<open>
  \<open>_extract_preferred_topics\<close>: the three dictionaries, and the three loops. \<open>json.loads\<close> is
  a parameter; \<open>None\<close> stands for its error, which the bare \<open>except\<close> swallows.
\<close>

record topics =
  t_hashtags :: "(string \<times> int) list"
  t_categories :: "(string \<times> int) list"
  t_platforms :: "(string \<times> int) list"

definition int_get :: "(string \<times> int) list \<Rightarrow> string \<Rightarrow> int" where
  "int_get d k = (case map_of d k of None \<Rightarrow> 0 | Some n \<Rightarrow> n)"

fun preferences_loop :: "preference_row list \<Rightarrow> topics \<Rightarrow> topics" where
  "preferences_loop [] t = t"
| "preferences_loop (pref # rest) t =
     preferences_loop rest
       (if pr_preference_type pref = ''hashtag'' then
          t\<lparr>t_hashtags := AList.update (pr_preference_value pref) (pr_frequency pref) (t_hashtags t)\<rparr>
        else if pr_preference_type pref = ''category'' then
          t\<lparr>t_categories := AList.update (pr_preference_value pref) (pr_frequency pref) (t_categories t)\<rparr>
        else t)"

fun tags_loop :: "string list \<Rightarrow> (string \<times> int) list \<Rightarrow> (string \<times> int) list" where
  "tags_loop [] d = d"
| "tags_loop (tag # rest) d =
     (let tag_clean = py_lower (py_lstrip CHR ''#'' tag)
      in tags_loop rest (AList.update tag_clean (int_get d tag_clean + 1) d))"

fun views_tags_loop ::
  "(string \<Rightarrow> string list option) \<Rightarrow> viewing_row list \<Rightarrow> topics \<Rightarrow> topics" where
  "views_tags_loop json_loads [] t = t"
| "views_tags_loop json_loads (view # rest) t =
     views_tags_loop json_loads rest
       (if truthy (v_tags view) then
          (case json_loads (get_or (v_tags view) []) of
             None \<Rightarrow> t
           | Some tags \<Rightarrow> t\<lparr>t_hashtags := tags_loop tags (t_hashtags t)\<rparr>)
        else t)"

fun views_platform_loop :: "viewing_row list \<Rightarrow> topics \<Rightarrow> topics" where
  "views_platform_loop [] t = t"
| "views_platform_loop (view # rest) t =
     views_platform_loop rest
       (t\<lparr>t_platforms :=
            AList.update (v_platform view) (int_get (t_platforms t) (v_platform view) + 1)
              (t_platforms t)\<rparr>)"

definition extract_preferred_topics ::
  "(string \<Rightarrow> string list option) \<Rightarrow> preference_row list \<Rightarrow> viewing_row list \<Rightarrow> topics" where
  "extract_preferred_topics json_loads preferences viewing_history =
     views_platform_loop viewing_history
       (views_tags_loop json_loads viewing_history
          (preferences_loop preferences
             \<lparr>t_hashtags = [], t_categories = [], t_platforms = []\<rparr>))"

text \<open>\<open>_select_platform\<close>: the chosen platform and the position after its draws.\<close>

fun pick_weighted :: "real \<Rightarrow> int \<Rightarrow> (string \<times> int) list \<Rightarrow> string option" where
  "pick_weighted rand_val current_weight [] = None"
| "pick_weighted rand_val current_weight ((pf, weight) # rest) =
     (if rand_val \<le> real_of_int (current_weight + weight) then Some pf
      else pick_weighted rand_val (current_weight + weight) rest)"

definition select_platform :: "rng \<Rightarrow> nat \<Rightarrow> (string \<times> int) list \<Rightarrow> string \<times> nat" where
  "select_platform g pos platform_preferences =
     (if platform_preferences = [] then (random_choice g pos mock_platforms, pos + 1)
      else
        let total_weight = sum_list (map snd platform_preferences)
        in if total_weight = 0 then (random_choice g pos mock_platforms, pos + 1)
           else
             (case pick_weighted (random_uniform g pos 0 (real_of_int total_weight)) 0
                     platform_preferences of
                Some pf \<Rightarrow> (py_title pf, pos + 1)
              | None \<Rightarrow> (random_choice g (pos + 1) mock_platforms, pos + 2)))"

text \<open>\<open>_generate_recommendations\<close>: the body of the loop and the loop.\<close>

definition make_recommendation :: "rng \<Rightarrow> nat \<Rightarrow> topics \<Rightarrow> nat \<Rightarrow> recommendation \<times> nat" where
  "make_recommendation g pos t i =
     (let (pf, pos1) = select_platform g pos (t_platforms t);
          (hashtag, pos2) =
            (if t_hashtags t \<noteq> [] then (random_choice g pos1 (map fst (t_hashtags t)), pos1 + 1)
             else (''technology'', pos1))
      in (\<lparr>rec_id = ''rec_'' @ py_str (int i) @ ''_'' @ py_str (random_randint g pos2 1000 9999),
           rec_platform = pf,
           rec_title = ''Recommended content about #'' @ hashtag @ '' on '' @ pf,
           rec_description =
             ''Based on your interest in #'' @ hashtag @ '' and similar content'',
           rec_url = ''https://'' @ py_lower pf @ ''.com/recommended/'' @ py_str (int i),
           rec_recommended_for = take 3 (map fst (t_hashtags t)),
           rec_confidence_score = round2 (random_uniform g (pos2 + 1) (7 / 10) (95 / 100)),
           rec_estimated_watch_time = random_randint g (pos2 + 2) 60 600\<rparr>,
          pos2 + 3))"

fun recommendations_loop :: "rng \<Rightarrow> nat \<Rightarrow> topics \<Rightarrow> nat list \<Rightarrow> recommendation list \<times> nat" where
  "recommendations_loop g pos t [] = ([], pos)"
| "recommendations_loop g pos t (i # rest) =
     (fst (make_recommendation g pos t i)
        # fst (recommendations_loop g (snd (make_recommendation g pos t i)) t rest),
      snd (recommendations_loop g (snd (make_recommendation g pos t i)) t rest))"

definition generate_recommendations ::
  "rng \<Rightarrow> nat \<Rightarrow> topics \<Rightarrow> int \<Rightarrow> recommendation list \<times> nat" where
  "generate_recommendations g pos preferred_topics count =
     recommendations_loop g pos preferred_topics [0..<nat count]"

definition get_user_recommendations ::
  "rng \<Rightarrow> (string \<Rightarrow> string list option) \<Rightarrow> personal_storage \<Rightarrow> string \<Rightarrow> int
     \<Rightarrow> recommendation list"
where
  "get_user_recommendations g json_loads storage user_id count =
     (case bind_err (get_personal_viewing_history storage user_id 50) (\<lambda>viewing_history.
           bind_err (get_user_preferences storage user_id) (\<lambda>preferences.
             Inr (viewing_history, preferences))) of
        Inl e \<Rightarrow> generate_mock_recommendations g 0 count
      | Inr (viewing_history, preferences) \<Rightarrow>
          (let preferred_topics = extract_preferred_topics json_loads preferences viewing_history;
               (recommendations, pos) = generate_recommendations g 0 preferred_topics count
           in if recommendations = [] then generate_mock_recommendations g pos count
              else recommendations))"

text \<open>
  A mock recommendation is recognised by its id, which starts with \<open>mock_rec_\<close>. The
  ranges of a recommendation: its confidence score between two bounds and its estimated
  watch time between 60 and 600 seconds.
\<close>

definition is_mock :: "recommendation \<Rightarrow> bool" where
  "is_mock r = (take 9 (rec_id r) = ''mock_rec_'')"

definition in_ranges :: "real \<Rightarrow> real \<Rightarrow> recommendation \<Rightarrow> bool" where
  "in_ranges lo hi r =
     (lo \<le> rec_confidence_score r \<and> rec_confidence_score r \<le> hi
      \<and> 60 \<le> rec_estimated_watch_time r \<and> rec_estimated_watch_time r \<le> 600)"


section \<open>Properties of sentiment scoring\<close>

lemma sum_ones_filter: "sum_ones lx ws = int (length (filter (\<lambda>w. w \<in> set lx) ws))"
  by (induction ws) auto

text \<open>
  The tables of \<open>py_lower_char\<close> and \<open>py_isspace\<close> agree with the arithmetic description on
  every one of the 256 characters.
\<close>

lemma py_lower_char_spec: "py_lower_char c = spec_lower_char c"
proof -
  have "\<forall>c. py_lower_char c = spec_lower_char c" by code_simp
  then show ?thesis by blast
qed

lemma py_isspace_spec: "py_isspace c = spec_isspace c"
proof -
  have "\<forall>c. py_isspace c = spec_isspace c" by code_simp
  then show ?thesis by blast
qed

lemma py_lower_spec: "py_lower s = map spec_lower_char s"
  by (simp add: py_lower_def py_lower_char_spec)

lemma spec_tokens_skip: "spec_tokens (dropWhile spec_isspace s) = spec_tokens s"
  by (subst spec_tokens.simps, subst (2) spec_tokens.simps) simp

lemma spec_tokens_first:
  "spec_tokens s =
     (if takeWhile (\<lambda>c. \<not> spec_isspace c) s = []
      then spec_tokens (dropWhile (\<lambda>c. \<not> spec_isspace c) s)
      else takeWhile (\<lambda>c. \<not> spec_isspace c) s
             # spec_tokens (dropWhile (\<lambda>c. \<not> spec_isspace c) s))"
proof (cases s)
  case Nil
  then show ?thesis by simp
next
  case (Cons c cs)
  show ?thesis
  proof (cases "spec_isspace c")
    case True
    then show ?thesis using Cons by simp
  next
    case False
    then show ?thesis using Cons by (subst spec_tokens.simps) simp
  qed
qed

text \<open>
  The scanner of \<open>py_split\<close>, with the token \<open>w\<close> in hand, completes \<open>w\<close> with the run of
  non-whitespace characters in front of it and goes on with the tokens of the rest.
\<close>

lemma split_from_spec:
  "split_from w s =
     (if w @ takeWhile (\<lambda>c. \<not> spec_isspace c) s = []
      then spec_tokens (dropWhile (\<lambda>c. \<not> spec_isspace c) s)
      else (w @ takeWhile (\<lambda>c. \<not> spec_isspace c) s)
             # spec_tokens (dropWhile (\<lambda>c. \<not> spec_isspace c) s))"
proof (induction s arbitrary: w)
  case Nil
  then show ?case by (simp add: spec_tokens.simps)
next
  case (Cons c cs)
  show ?case
  proof (cases "spec_isspace c")
    case True
    have "spec_tokens (c # cs) = spec_tokens cs"
      using spec_tokens_skip [of "c # cs"] spec_tokens_skip [of cs] True by simp
    moreover have "split_from [] cs = spec_tokens cs"
      using Cons.IH [of "[]"] spec_tokens_first [of cs] by simp
    ultimately show ?thesis using True by (simp add: py_isspace_spec)
  next
    case False
    then show ?thesis using Cons.IH [of "w @ [c]"] by (simp add: py_isspace_spec)
  qed
qed

lemma py_split_spec: "py_split s = spec_tokens s"
  using split_from_spec [of "[]" s] spec_tokens_first [of s] by (simp add: py_split_def)

lemma analyze_sentiment_eq_spec: "analyze_sentiment txt = spec_sentiment txt"
  by (simp add: analyze_sentiment_def spec_sentiment_def spec_count_def sum_ones_filter
      py_split_spec py_lower_spec Let_def)

lemmas sentiment_eval =
  analyze_sentiment_def py_split_def py_lower_def py_lower_char_def py_isspace_def
  positive_words_def negative_words_def Let_def

lemma sentiment_great_wonderful:
  "analyze_sentiment ''This is a great and wonderful day'' = 1"
  by (simp add: sentiment_eval)

lemma sentiment_bad_terrible: "analyze_sentiment ''This is bad and terrible'' = - 1"
  by (simp add: sentiment_eval)

lemma sentiment_sky_blue: "analyze_sentiment ''The sky is blue'' = 0"
  by (simp add: sentiment_eval)

lemma sentiment_upper_case: "analyze_sentiment ''This is GREAT'' = 1"
  by (simp add: sentiment_eval)

lemma sentiment_next_line: "analyze_sentiment (''BAD'' @ [CHR 0x85] @ ''day'') = - 1"
  by (simp add: sentiment_eval)

lemma sentiment_punctuation: "analyze_sentiment ''A good day, great!'' = 1"
  by (simp add: sentiment_eval)

text \<open>
  C6. For every text of code points below 256, \<open>_analyze_sentiment\<close> returns
  \<open>(pos_count - neg_count) / (pos_count + neg_count)\<close> clamped to \<open>[-1, 1]\<close>, where the two
  counts are the numbers of whitespace-separated tokens of the lower-cased text that are
  equal to a word of the positive and of the negative lexicon; it returns 0 for the empty
  text and when no sentiment word occurs. The right-hand side is built from
  \<open>spec_lower_char\<close>, \<open>spec_isspace\<close> and \<open>spec_tokens\<close>, not from the functions of the code.
  The three texts of the specification score 1, -1 and 0; a sentiment word in capitals
  counts, the next-line control \<open>0x85\<close> separates tokens, and a token with punctuation
  attached (\<open>great!\<close>) is no match.
\<close>

theorem analyze_sentiment_spec:
  "analyze_sentiment txt = spec_sentiment txt
   \<and> analyze_sentiment ''This is a great and wonderful day'' = 1
   \<and> analyze_sentiment ''This is bad and terrible'' = - 1
   \<and> analyze_sentiment ''The sky is blue'' = 0
   \<and> analyze_sentiment ''This is GREAT'' = 1
   \<and> analyze_sentiment (''BAD'' @ [CHR 0x85] @ ''day'') = - 1
   \<and> analyze_sentiment ''A good day, great!'' = 1"
  using analyze_sentiment_eq_spec sentiment_great_wonderful sentiment_bad_terrible
    sentiment_sky_blue sentiment_upper_case sentiment_next_line sentiment_punctuation
  by simp

text \<open>
  The theorem on a text in mixed case, with a tab and a no-break space between words.
  The lexicons of the code are the 23 and the 21 words the specification enumerates, and
  no word is in both.
\<close>

theorem analyze_sentiment_spec_witness:
  "spec_sentiment (''I LOVE this'' @ [CHR 0x09] @ ''but Hate'' @ [CHR 0xA0] @ ''that AWFUL part'')
     = - 1 / 3
   \<and> analyze_sentiment (''I LOVE this'' @ [CHR 0x09] @ ''but Hate'' @ [CHR 0xA0] @ ''that AWFUL part'')
     = - 1 / 3
   \<and> length positive_words = 23
   \<and> length negative_words = 21
   \<and> sum_ones positive_words
        [''good'', ''great'', ''excellent'', ''amazing'', ''wonderful'', ''fantastic'', ''love'',
         ''like'', ''awesome'', ''brilliant'', ''outstanding'', ''perfect'', ''happy'', ''joy'',
         ''pleased'', ''satisfied'', ''delighted'', ''thrilled'', ''positive'', ''incredible'',
         ''superb'', ''marvelous'', ''fabulous''] = 23
   \<and> sum_ones negative_words
        [''bad'', ''terrible'', ''awful'', ''horrible'', ''hate'', ''dislike'', ''disappointing'',
         ''sad'', ''angry'', ''frustrated'', ''annoyed'', ''negative'', ''worst'', ''pathetic'',
         ''useless'', ''horrific'', ''disgusting'', ''atrocious'', ''dreadful'', ''appalling'',
         ''abysmal''] = 21
   \<and> sum_ones positive_words negative_words = 0"
proof -
  let ?t = "''I LOVE this'' @ [CHR 0x09] @ ''but Hate'' @ [CHR 0xA0] @ ''that AWFUL part''"
  have "analyze_sentiment ?t = - 1 / 3"
    by (simp add: sentiment_eval)
  moreover have "analyze_sentiment ?t = spec_sentiment ?t"
    using analyze_sentiment_spec [of ?t] by (simp only: simp_thms)
  moreover have "length positive_words = 23" "length negative_words = 21"
    by (simp_all add: positive_words_def negative_words_def)
  moreover have "sum_ones positive_words
        [''good'', ''great'', ''excellent'', ''amazing'', ''wonderful'', ''fantastic'', ''love'',
         ''like'', ''awesome'', ''brilliant'', ''outstanding'', ''perfect'', ''happy'', ''joy'',
         ''pleased'', ''satisfied'', ''delighted'', ''thrilled'', ''positive'', ''incredible'',
         ''superb'', ''marvelous'', ''fabulous''] = 23"
    by (simp add: positive_words_def)
  moreover have "sum_ones negative_words
        [''bad'', ''terrible'', ''awful'', ''horrible'', ''hate'', ''dislike'', ''disappointing'',
         ''sad'', ''angry'', ''frustrated'', ''annoyed'', ''negative'', ''worst'', ''pathetic'',
         ''useless'', ''horrific'', ''disgusting'', ''atrocious'', ''dreadful'', ''appalling'',
         ''abysmal''] = 21"
    by (simp add: negative_words_def)
  moreover have "sum_ones positive_words negative_words = 0"
    by (simp add: positive_words_def negative_words_def)
  ultimately show ?thesis by (simp only: simp_thms)
qed


section \<open>Properties of the percentiles\<close>

lemma floor_fraction_bounds:
  assumes "1 \<le> n" "0 \<le> f" "f < 1"
  shows "0 \<le> \<lfloor>f * real n\<rfloor> \<and> \<lfloor>f * real n\<rfloor> < int n"
proof -
  have "f * real n < real n" using assms by simp
  then have "\<lfloor>f * real n\<rfloor> < int n" by linarith
  moreover have "0 \<le> \<lfloor>f * real n\<rfloor>" using assms by simp
  ultimately show ?thesis by simp
qed

lemma percentile_at_in_range:
  assumes "1 \<le> length xs" "0 \<le> f" "f < 1"
  shows "percentile_at xs f = Inr (xs ! nat \<lfloor>f * real (length xs)\<rfloor>)"
proof -
  have "0 \<le> \<lfloor>f * real (length xs)\<rfloor> \<and> \<lfloor>f * real (length xs)\<rfloor> < int (length xs)"
    using floor_fraction_bounds [OF assms] .
  then show ?thesis
    unfolding percentile_at_def py_index_def by (simp only: if_True simp_thms)
qed

lemma calculate_percentiles_total: "calculate_percentiles data = Inr (spec_percentiles data)"
  by (simp add: calculate_percentiles_def spec_percentiles_def percentile_targets_def
      percentile_at_in_range bind_err_def Let_def)

lemma percentile_index_in_range:
  assumes "(k, f) \<in> set percentile_targets" "2 \<le> length data"
  shows "nat \<lfloor>f * real (length data)\<rfloor> < length data"
proof -
  have "0 \<le> f \<and> f < 1" using assms(1) by (auto simp: percentile_targets_def)
  then have "0 \<le> \<lfloor>f * real (length data)\<rfloor> \<and> \<lfloor>f * real (length data)\<rfloor> < int (length data)"
    using floor_fraction_bounds [of "length data" f] assms(2) by simp
  then show ?thesis by linarith
qed

lemma percentiles_one_to_ten:
  "calculate_percentiles [1, 2, 3, 4, 5, 6, 7, 8, 9, 10] =
     Inr [(''p25'', 3), (''p50'', 6), (''p75'', 8), (''p90'', 10), (''p95'', 10), (''p99'', 10)]"
  by (simp add: calculate_percentiles_total spec_percentiles_def percentile_targets_def)

text \<open>
  C7. For every list of \<open>n\<close> engagement scores, the percentile mapping is empty when
  \<open>n < 2\<close>; otherwise, for each target fraction \<open>f\<close> of 0.25, 0.50, 0.75, 0.90, 0.95 and
  0.99, the reported percentile is the element at the zero-based index \<open>floor(f * n)\<close> of
  the scores sorted ascending, an index that lies inside the list, so that no IndexError
  is raised. For the sequence 1 to 10 the reported \<open>p50\<close> is 6.
\<close>

theorem calculate_percentiles_spec:
  "calculate_percentiles data = Inr (spec_percentiles data)
   \<and> (length data < 2 \<longrightarrow> calculate_percentiles data = Inr [])
   \<and> (\<forall>(k, f) \<in> set percentile_targets.
        2 \<le> length data \<longrightarrow> nat \<lfloor>f * real (length data)\<rfloor> < length data)
   \<and> calculate_percentiles [1, 2, 3, 4, 5, 6, 7, 8, 9, 10] =
       Inr [(''p25'', 3), (''p50'', 6), (''p75'', 8), (''p90'', 10), (''p95'', 10), (''p99'', 10)]"
  using calculate_percentiles_total percentile_index_in_range percentiles_one_to_ten
  by (auto simp: calculate_percentiles_def)

theorem calculate_percentiles_spec_witness:
  "calculate_percentiles [40, 10, 30, 20] = Inr (spec_percentiles [40, 10, 30, 20])
   \<and> spec_percentiles [40, 10, 30, 20] =
       [(''p25'', 20), (''p50'', 30), (''p75'', 40), (''p90'', 40), (''p95'', 40), (''p99'', 40)]
   \<and> nat \<lfloor>99 / 100 * real (length [40 :: real, 10, 30, 20])\<rfloor> < length [40 :: real, 10, 30, 20]
   \<and> calculate_percentiles [7] = Inr []"
proof -
  have short: "length [7 :: real] < 2" by simp
  have long: "2 \<le> length [40 :: real, 10, 30, 20]" by simp
  have target: "(''p99'', 99 / 100) \<in> set percentile_targets"
    by (simp add: percentile_targets_def)
  have "nat \<lfloor>99 / 100 * real (length [40 :: real, 10, 30, 20])\<rfloor> < length [40 :: real, 10, 30, 20]"
    using calculate_percentiles_spec [of "[40, 10, 30, 20]"] long target by blast
  then show ?thesis
    using calculate_percentiles_spec [of "[40, 10, 30, 20]"] calculate_percentiles_spec [of "[7]"]
      short
    by (simp add: spec_percentiles_def percentile_targets_def)
qed


section \<open>Properties of the engagement velocity\<close>

lemma velocity_loop_map:
  "velocity_loop fromiso pf ps (es, ts) =
     (es @ map (velocity_engagement pf) ps, ts @ map (epoch_or_zero fromiso) ps)"
  by (induction ps arbitrary: es ts) auto

lemma velocity_eq_slope:
  "calculate_engagement_velocity fromiso posts pf = slope_velocity fromiso posts pf"
proof (cases "length posts < 2")
  case True
  then show ?thesis by (simp add: calculate_engagement_velocity_def slope_velocity_def)
next
  case False
  define s where "s = sort_key (\<lambda>x. get_or (p_timestamp x) []) posts"
  have len: "length s = length posts" by (simp add: s_def)
  then have ne: "s \<noteq> []" using False by auto
  show ?thesis using False ne len
    by (simp add: calculate_engagement_velocity_def slope_velocity_def velocity_loop_map
        s_def [symmetric] Let_def hd_map last_map)
qed

lemmas velocity_eval =
  calculate_engagement_velocity_def empty_post_def replace_Z_def epoch_or_zero_def get_or_def
  velocity_engagement_def twitter_engagement_def

text \<open>
  C3, as stated, fails: the velocity is not 0 whenever some timestamp fails to parse.
  Of two microblogging posts, one with 1000 likes at \<open>1970-01-01T00:01:40Z\<close> (epoch 100)
  and one with no likes and the timestamp \<open>bad\<close>, the second sorts last and counts as
  epoch 0, and the velocity is \<open>(0 - 1000) / (0 - 100) = 10\<close>.
\<close>

theorem velocity_unparseable_counterexample:
  "(\<lambda>s. if s = ''1970-01-01T00:01:40+00:00'' then Some 100 else None) (replace_Z ''bad'')
     = (None :: real option)
   \<and> calculate_engagement_velocity
       (\<lambda>s. if s = ''1970-01-01T00:01:40+00:00'' then Some 100 else None)
       [empty_post\<lparr>p_timestamp := Some ''1970-01-01T00:01:40Z'', p_likes := Some 1000\<rparr>,
        empty_post\<lparr>p_timestamp := Some ''bad''\<rparr>]
       ''twitter'' = 10"
  by (simp add: velocity_eval)

text \<open>
  C3, amended. For every post list, the engagement velocity is 0 when there are fewer
  than 2 posts or when the first and the last post of the list sorted by timestamp
  string have the same epoch value; otherwise it is
  \<open>(last_engagement - first_engagement) / (last_epoch_seconds - first_epoch_seconds)\<close>
  over the first and last post of the sorted list, where a timestamp that fails to parse
  contributes the epoch value 0 (so a parse failure alone does not make the velocity 0).
\<close>

theorem velocity_slope_of_sorted_ends:
  "calculate_engagement_velocity fromiso posts pf = slope_velocity fromiso posts pf
   \<and> (length posts < 2 \<longrightarrow> calculate_engagement_velocity fromiso posts pf = 0)"
  using velocity_eq_slope by (simp add: slope_velocity_def)

theorem velocity_slope_of_sorted_ends_witness:
  "calculate_engagement_velocity
     (\<lambda>s. if s = ''2024-01-01T00:00:00+00:00'' then Some 1704067200
          else if s = ''2024-01-01T00:01:00+00:00'' then Some 1704067260 else None)
     [empty_post\<lparr>p_timestamp := Some ''2024-01-01T00:01:00Z'', p_likes := Some 70\<rparr>,
      empty_post\<lparr>p_timestamp := Some ''2024-01-01T00:00:00Z'', p_likes := Some 10\<rparr>]
     ''twitter'' = 1
   \<and> slope_velocity
     (\<lambda>s. if s = ''2024-01-01T00:00:00+00:00'' then Some 1704067200
          else if s = ''2024-01-01T00:01:00+00:00'' then Some 1704067260 else None)
     [empty_post\<lparr>p_timestamp := Some ''2024-01-01T00:01:00Z'', p_likes := Some 70\<rparr>,
      empty_post\<lparr>p_timestamp := Some ''2024-01-01T00:00:00Z'', p_likes := Some 10\<rparr>]
     ''twitter'' = 1
   \<and> calculate_engagement_velocity (\<lambda>s. None) [empty_post] ''twitter'' = 0"
proof -
  have "length [empty_post] < 2" by simp
  then show ?thesis
    using
      velocity_slope_of_sorted_ends [of
        "\<lambda>s. if s = ''2024-01-01T00:00:00+00:00'' then Some 1704067200
             else if s = ''2024-01-01T00:01:00+00:00'' then Some 1704067260 else None"
        "[empty_post\<lparr>p_timestamp := Some ''2024-01-01T00:01:00Z'', p_likes := Some 70\<rparr>,
          empty_post\<lparr>p_timestamp := Some ''2024-01-01T00:00:00Z'', p_likes := Some 10\<rparr>]"
        "''twitter''"]
      velocity_slope_of_sorted_ends [of "\<lambda>s. None" "[empty_post]" "''twitter''"]
    by (simp add: velocity_eval)
qed


section \<open>Properties of the engagement analysis\<close>

lemma engagement_summary_total: "\<exists>a. engagement_summary fromiso posts pf scores = Inr a"
  by (simp add: engagement_summary_def calculate_percentiles_total bind_err_def Let_def)

lemma analyze_engagement_unbound:
  assumes "pd_posts d = Some posts" "pd_platform d = Some name"
    "py_lower name \<noteq> ''twitter''" "py_lower name \<noteq> ''youtube''"
  shows "analyze_engagement fromiso d = Inl UnboundLocalError"
  using assms by (simp add: analyze_engagement_def pd_falsy_def Let_def)

lemma analyze_engagement_empty_iff:
  "analyze_engagement fromiso d = Inr None \<longleftrightarrow> (pd_falsy d \<or> pd_posts d = None)"
proof -
  have "bind_err (engagement_summary fromiso posts pf scores) (\<lambda>a. Inr (Some a)) \<noteq> Inr None"
    for posts pf scores
  proof -
    obtain a where "engagement_summary fromiso posts pf scores = Inr a"
      using engagement_summary_total by blast
    then show ?thesis by (simp add: bind_err_def)
  qed
  then show ?thesis
    by (auto simp: analyze_engagement_def Let_def split: option.splits)
qed

text \<open>
  C8. For every input mapping that has a \<open>posts\<close> key and whose \<open>platform\<close> value
  lower-cases to neither \<open>twitter\<close> nor \<open>youtube\<close>, \<open>analyze_engagement\<close> raises
  UnboundLocalError (it reads \<open>engagement_scores\<close>, which no branch has assigned) instead
  of returning a result; and it returns the empty mapping exactly when the input is empty
  or has no \<open>posts\<close> key.
\<close>

theorem analyze_engagement_unknown_platform:
  "(pd_posts d = Some posts \<and> pd_platform d = Some name
      \<and> py_lower name \<noteq> ''twitter'' \<and> py_lower name \<noteq> ''youtube''
      \<longrightarrow> analyze_engagement fromiso d = Inl UnboundLocalError)
   \<and> (analyze_engagement fromiso d = Inr None \<longleftrightarrow> (pd_falsy d \<or> pd_posts d = None))"
  using analyze_engagement_unbound [of d posts name fromiso]
    analyze_engagement_empty_iff [of fromiso d]
  by simp

theorem analyze_engagement_unknown_platform_witness:
  "py_lower ''Reddit'' \<noteq> ''twitter'' \<and> py_lower ''Reddit'' \<noteq> ''youtube''
   \<and> analyze_engagement (\<lambda>s. None)
       \<lparr>pd_platform = Some ''Reddit'', pd_posts = Some [empty_post],
        pd_identifier = None, pd_metrics = None\<rparr> = Inl UnboundLocalError
   \<and> analyze_engagement (\<lambda>s. None)
       \<lparr>pd_platform = Some ''Reddit'', pd_posts = None,
        pd_identifier = None, pd_metrics = None\<rparr> = Inr None"
proof -
  have l: "py_lower ''Reddit'' \<noteq> ''twitter'' \<and> py_lower ''Reddit'' \<noteq> ''youtube''"
    by (simp add: py_lower_def py_lower_char_def)
  then show ?thesis
    using
      analyze_engagement_unknown_platform [of
        "\<lparr>pd_platform = Some ''Reddit'', pd_posts = Some [empty_post],
          pd_identifier = None, pd_metrics = None\<rparr>" "[empty_post]" "''Reddit''" "\<lambda>s. None"]
      analyze_engagement_unknown_platform [of
        "\<lparr>pd_platform = Some ''Reddit'', pd_posts = None,
          pd_identifier = None, pd_metrics = None\<rparr>" "[]" "''Reddit''" "\<lambda>s. None"]
    by simp
qed


section \<open>Properties of the trend detector\<close>

lemma td_inv_init: "td_inv (new_trend_detector 10) []"
  by (simp add: td_inv_def new_trend_detector_def calls_for_def)

lemma live_snoc_other:
  "normalize_hashtag (c_hashtag c) \<noteq> h \<Longrightarrow> live_mentions h (H @ [c]) = live_mentions h H"
  by (simp add: live_mentions_def calls_for_def)

lemma calls_for_snoc_other:
  "normalize_hashtag (c_hashtag c) \<noteq> h \<Longrightarrow> calls_for h (H @ [c]) = calls_for h H"
  by (simp add: calls_for_def)

lemma calls_for_snoc_same:
  "normalize_hashtag (c_hashtag c) = h \<Longrightarrow> calls_for h (H @ [c]) = calls_for h H @ [c]"
  by (simp add: calls_for_def)

lemma live_snoc_same:
  assumes "normalize_hashtag (c_hashtag c) = h"
    and "\<forall>c' \<in> set H. c_time_at_cleanup c' \<le> c_time_at_cleanup c"
  shows "live_mentions h (H @ [c]) =
     filter (\<lambda>ts. c_time_at_cleanup c - ts \<le> 600)
       ((if calls_for h H = [] then [] else live_mentions h H) @ [call_stamp c])"
proof (cases "calls_for h H = []")
  case True
  then show ?thesis using assms(1) by (simp add: live_mentions_def calls_for_snoc_same)
next
  case False
  then have "last (calls_for h H) \<in> set H"
    using last_in_set[OF False] by (auto simp: calls_for_def)
  then have le: "c_time_at_cleanup (last (calls_for h H)) \<le> c_time_at_cleanup c"
    using assms(2) by blast
  have "filter (\<lambda>ts. c_time_at_cleanup c - ts \<le> 600)
          (filter (\<lambda>ts. c_time_at_cleanup (last (calls_for h H)) - ts \<le> 600) xs)
        = filter (\<lambda>ts. c_time_at_cleanup c - ts \<le> 600) xs" for xs
    using le by (induction xs) auto
  then show ?thesis using assms(1) False
    by (simp add: live_mentions_def calls_for_snoc_same)
qed

lemma add_call_inv:
  assumes "td_inv td H" "\<forall>c' \<in> set H. c_time_at_cleanup c' \<le> c_time_at_cleanup c"
  shows "\<exists>td'. add_call c td = Inr td' \<and> td_inv td' (H @ [c])"
proof -
  define h where "h = normalize_hashtag (c_hashtag c)"
  have tw: "time_window td = 600" using assms(1) by (simp add: td_inv_def)
  have st: "map_of (hashtag_timestamps td) h = (if calls_for h H = [] then None else Some (live_mentions h H))"
    using assms(1) by (simp add: td_inv_def)
  have live: "live_mentions h (H @ [c]) =
     filter (\<lambda>ts. c_time_at_cleanup c - ts \<le> 600)
       ((if calls_for h H = [] then [] else live_mentions h H) @ [call_stamp c])"
    using live_snoc_same[OF h_def[symmetric] assms(2)] .
  have ne: "calls_for h (H @ [c]) \<noteq> []" by (simp add: calls_for_snoc_same h_def)
  show ?thesis
  proof (cases "calls_for h H = []")
    case True
    then show ?thesis using assms(1) live ne tw st
      apply (simp add: add_call_def add_hashtag_def cleanup_old_entries_def Let_def h_def[symmetric] AList.update_conv' call_stamp_def[symmetric])
      apply (simp add: td_inv_def AList.update_conv' AList.distinct_update)
      apply (intro conjI allI impI)
      apply (auto simp: calls_for_snoc_other live_snoc_other h_def)
      done
  next
    case False
    then show ?thesis using assms(1) live ne tw st
      apply (simp add: add_call_def add_hashtag_def cleanup_old_entries_def Let_def h_def[symmetric] AList.update_conv' call_stamp_def[symmetric])
      apply (simp add: td_inv_def AList.update_conv' AList.distinct_update)
      apply (intro conjI allI impI)
      apply (auto simp: calls_for_snoc_other live_snoc_other h_def)
      done
  qed
qed

lemma run_calls_inv:
  assumes "td_inv td H" "sorted (map c_time_at_cleanup (H @ cs))"
  shows "\<exists>td'. run_calls cs td = Inr td' \<and> td_inv td' (H @ cs)"
  using assms
proof (induction cs arbitrary: td H)
  case Nil
  then show ?case by simp
next
  case (Cons c cs)
  have "\<forall>c' \<in> set H. c_time_at_cleanup c' \<le> c_time_at_cleanup c"
    using Cons.prems(2) by (auto simp: sorted_append)
  then obtain td1 where s1: "add_call c td = Inr td1" and i1: "td_inv td1 (H @ [c])"
    using add_call_inv [OF Cons.prems(1)] by blast
  have "sorted (map c_time_at_cleanup ((H @ [c]) @ cs))" using Cons.prems(2) by simp
  then obtain td' where "run_calls cs td1 = Inr td'" "td_inv td' ((H @ [c]) @ cs)"
    using Cons.IH [OF i1] by blast
  then show ?case using s1 by (simp add: bind_err_def)
qed

lemma slice_to_subset: "set (slice_to limit xs) \<subseteq> set xs"
  by (auto simp: slice_to_def dest: in_set_takeD)

lemma slice_to_all: "int (length xs) \<le> limit \<Longrightarrow> slice_to limit xs = xs"
  by (simp add: slice_to_def)

lemma trending_subset:
  assumes "(h, n) \<in> set (get_trending_hashtags td limit)"
  shows "(h, n) \<in> set (hashtag_counts td) \<and> trend_threshold td \<le> n"
proof -
  have "(h, n) \<in> set (filter (\<lambda>(hashtag, count). trend_threshold td \<le> count) (hashtag_counts td))"
    using assms slice_to_subset by (fastforce simp: get_trending_hashtags_def Let_def)
  then show ?thesis by simp
qed

lemma trending_complete:
  assumes "(h, n) \<in> set (hashtag_counts td)" "trend_threshold td \<le> n"
    "int (length (filter (\<lambda>(hashtag, count). trend_threshold td \<le> count) (hashtag_counts td))) \<le> limit"
  shows "(h, n) \<in> set (get_trending_hashtags td limit)"
  using assms by (simp add: get_trending_hashtags_def Let_def slice_to_all)


lemma live_mentions_last: "live_mentions (normalize_hashtag (c_hashtag c)) (cs @ [c]) = recent_mentions cs c"
  by (simp add: live_mentions_def recent_mentions_def calls_for_def)

lemma td_inv_last:
  assumes "td_inv td (cs @ [c])"
  shows "map_of (hashtag_counts td) (normalize_hashtag (c_hashtag c)) = Some (length (recent_mentions cs c))"
    and "map_of (hashtag_timestamps td) (normalize_hashtag (c_hashtag c)) = Some (recent_mentions cs c)"
proof -
  have ne: "calls_for (normalize_hashtag (c_hashtag c)) (cs @ [c]) \<noteq> []"
    by (simp add: calls_for_def)
  show "map_of (hashtag_counts td) (normalize_hashtag (c_hashtag c)) = Some (length (recent_mentions cs c))"
    using assms ne live_mentions_last [of c cs] by (simp add: td_inv_def)
  show "map_of (hashtag_timestamps td) (normalize_hashtag (c_hashtag c)) = Some (recent_mentions cs c)"
    using assms ne live_mentions_last [of c cs] by (simp add: td_inv_def)
qed

lemma trend_after_calls:
  assumes "sorted (map c_time_at_cleanup (cs @ [c]))"
    and "run_calls (cs @ [c]) (new_trend_detector 10) = Inr td"
  shows "counter_get (hashtag_counts td) (normalize_hashtag (c_hashtag c)) = length (recent_mentions cs c)"
    and "map_of (hashtag_timestamps td) (normalize_hashtag (c_hashtag c)) = Some (recent_mentions cs c)"
    and "5 \<le> length (recent_mentions cs c) \<Longrightarrow> int (trending_count td) \<le> limit \<Longrightarrow>
           normalize_hashtag (c_hashtag c) \<in> fst ` set (get_trending_hashtags td limit)"
    and "length (recent_mentions cs c) < 5 \<Longrightarrow>
           normalize_hashtag (c_hashtag c) \<notin> fst ` set (get_trending_hashtags td limit)"
proof -
  let ?h = "normalize_hashtag (c_hashtag c)"
  obtain td' where "run_calls (cs @ [c]) (new_trend_detector 10) = Inr td'" "td_inv td' ([] @ (cs @ [c]))"
    using run_calls_inv [OF td_inv_init, of "cs @ [c]"] assms(1) by auto
  then have inv: "td_inv td (cs @ [c])" using assms(2) by simp
  have cnt: "map_of (hashtag_counts td) ?h = Some (length (recent_mentions cs c))"
    using td_inv_last(1) [OF inv] .
  show "counter_get (hashtag_counts td) ?h = length (recent_mentions cs c)"
    using cnt by (simp add: counter_get_def)
  show "map_of (hashtag_timestamps td) ?h = Some (recent_mentions cs c)"
    using td_inv_last(2) [OF inv] .
  have th: "trend_threshold td = 5" and dist: "distinct (map fst (hashtag_counts td))"
    using inv by (simp_all add: td_inv_def)
  have mem: "(?h, length (recent_mentions cs c)) \<in> set (hashtag_counts td)"
    using cnt by (rule map_of_SomeD)
  show "?h \<in> fst ` set (get_trending_hashtags td limit)"
    if "5 \<le> length (recent_mentions cs c)" "int (trending_count td) \<le> limit"
  proof -
    have "(?h, length (recent_mentions cs c)) \<in> set (get_trending_hashtags td limit)"
      using trending_complete [OF mem] that th by (simp add: trending_count_def)
    then show ?thesis by force
  qed
  show "?h \<notin> fst ` set (get_trending_hashtags td limit)" if "length (recent_mentions cs c) < 5"
  proof
    assume "?h \<in> fst ` set (get_trending_hashtags td limit)"
    then obtain n where "(?h, n) \<in> set (get_trending_hashtags td limit)" by auto
    then have "(?h, n) \<in> set (hashtag_counts td)" "5 \<le> n"
      using trending_subset th by fastforce+
    then have "map_of (hashtag_counts td) ?h = Some n" using dist by simp
    then show False using cnt that \<open>5 \<le> n\<close> by simp
  qed
qed

lemma run_calls_total:
  assumes "sorted (map c_time_at_cleanup cs)"
  shows "\<exists>td. run_calls cs (new_trend_detector 10) = Inr td"
  using run_calls_inv [OF td_inv_init, of cs] assms by auto

text \<open>
  C4, as stated, fails: a hashtag added 5 times within the window need not appear in
  \<open>get_trending_hashtags()\<close>, whose default limit keeps the first 10 entries. After ten
  other hashtags have been added 5 times each, the hashtag \<open>#late\<close>, added 5 times at the
  same instant, has the live count 5 and five recorded timestamps, and is cut off.
\<close>

theorem trend_limit_counterexample:
  "case run_calls
          (concat (map (\<lambda>h. replicate 5
             \<lparr>c_hashtag = h, c_timestamp = None, c_time_at_entry = 0, c_time_at_cleanup = 0\<rparr>)
             [''#a'', ''#b'', ''#c'', ''#d'', ''#e'', ''#f'', ''#g'', ''#h'', ''#i'', ''#j'',
              ''#late'']))
          (new_trend_detector 10) of
     Inl e \<Rightarrow> False
   | Inr td \<Rightarrow>
       counter_get (hashtag_counts td) ''late'' = 5
       \<and> map_of (hashtag_timestamps td) ''late'' = Some [0, 0, 0, 0, 0]
       \<and> ''late'' \<notin> fst ` set (get_trending_hashtags td 10)"
  by code_simp

text \<open>
  C4, amended. For every sequence of \<open>add_hashtag\<close> calls on a new Trend Detector whose
  clock readings do not decrease, no call raises, and after the last call its normalized
  hashtag has a live count equal to the number of its recorded observation timestamps no
  older than 600 seconds at that call, which are exactly the timestamps kept (older
  mentions are pruned). If that number is 5 or more, the hashtag appears in
  \<open>get_trending_hashtags(limit)\<close> whenever at most \<open>limit\<close> hashtags are at or above the
  threshold (the default limit is 10); if it is 4 or less, the hashtag does not appear,
  whatever the limit.
\<close>

theorem trend_detector_window:
  assumes "sorted (map c_time_at_cleanup (cs @ [c]))"
  shows "(\<exists>td'. run_calls (cs @ [c]) (new_trend_detector 10) = Inr td')
    \<and> (run_calls (cs @ [c]) (new_trend_detector 10) = Inr td \<longrightarrow>
         counter_get (hashtag_counts td) (normalize_hashtag (c_hashtag c))
           = length (recent_mentions cs c)
       \<and> map_of (hashtag_timestamps td) (normalize_hashtag (c_hashtag c))
           = Some (recent_mentions cs c)
       \<and> (5 \<le> length (recent_mentions cs c) \<and> int (trending_count td) \<le> limit \<longrightarrow>
            normalize_hashtag (c_hashtag c) \<in> fst ` set (get_trending_hashtags td limit))
       \<and> (length (recent_mentions cs c) < 5 \<longrightarrow>
            normalize_hashtag (c_hashtag c) \<notin> fst ` set (get_trending_hashtags td limit)))"
  using run_calls_total [OF assms] trend_after_calls [OF assms] by blast

text \<open>
  Two runs: five mentions of \<open>ai\<close> inside the window make it trending; when the first of
  them is older than 600 seconds at the last call it is pruned, four remain, and the
  hashtag is not trending.
\<close>

theorem trend_detector_window_witness:
  "run_calls
     (map (\<lambda>(h, t). \<lparr>c_hashtag = h, c_timestamp = None, c_time_at_entry = t, c_time_at_cleanup = t\<rparr>)
        [(''#AI'', 100), (''#ai'', 100), (''ai'', 200), (''##Ai'', 650), (''#other'', 660)]
      @ [\<lparr>c_hashtag = ''#aI'', c_timestamp = None, c_time_at_entry = 700, c_time_at_cleanup = 700\<rparr>])
     (new_trend_detector 10)
   = Inr \<lparr>time_window = 600, hashtag_counts = [(''ai'', 5), (''other'', 1)],
          hashtag_timestamps = [(''ai'', [100, 100, 200, 650, 700]), (''other'', [660])],
          trend_threshold = 5\<rparr>
   \<and> ''ai'' \<in> fst ` set (get_trending_hashtags
          \<lparr>time_window = 600, hashtag_counts = [(''ai'', 5), (''other'', 1)],
           hashtag_timestamps = [(''ai'', [100, 100, 200, 650, 700]), (''other'', [660])],
           trend_threshold = 5\<rparr> 10)
   \<and> run_calls
     (map (\<lambda>(h, t). \<lparr>c_hashtag = h, c_timestamp = None, c_time_at_entry = t, c_time_at_cleanup = t\<rparr>)
        [(''#AI'', 0), (''#ai'', 100), (''ai'', 200), (''##Ai'', 650), (''#other'', 660)]
      @ [\<lparr>c_hashtag = ''#aI'', c_timestamp = None, c_time_at_entry = 700, c_time_at_cleanup = 700\<rparr>])
     (new_trend_detector 10)
   = Inr \<lparr>time_window = 600, hashtag_counts = [(''ai'', 4), (''other'', 1)],
          hashtag_timestamps = [(''ai'', [100, 200, 650, 700]), (''other'', [660])],
          trend_threshold = 5\<rparr>
   \<and> ''ai'' \<notin> fst ` set (get_trending_hashtags
          \<lparr>time_window = 600, hashtag_counts = [(''ai'', 4), (''other'', 1)],
           hashtag_timestamps = [(''ai'', [100, 200, 650, 700]), (''other'', [660])],
           trend_threshold = 5\<rparr> 10)"
proof -
  let ?mk = "\<lambda>(h, t). \<lparr>c_hashtag = h, c_timestamp = None, c_time_at_entry = t, c_time_at_cleanup = t\<rparr>"
  let ?c = "\<lparr>c_hashtag = ''#aI'', c_timestamp = None, c_time_at_entry = 700, c_time_at_cleanup = 700\<rparr>"
  let ?cs5 = "map ?mk [(''#AI'', 100), (''#ai'', 100), (''ai'', 200), (''##Ai'', 650), (''#other'', 660)]"
  let ?cs4 = "map ?mk [(''#AI'', 0), (''#ai'', 100), (''ai'', 200), (''##Ai'', 650), (''#other'', 660)]"
  let ?td5 = "\<lparr>time_window = 600, hashtag_counts = [(''ai'', 5), (''other'', 1)],
          hashtag_timestamps = [(''ai'', [100, 100, 200, 650, 700]), (''other'', [660])],
          trend_threshold = 5\<rparr>"
  let ?td4 = "\<lparr>time_window = 600, hashtag_counts = [(''ai'', 4), (''other'', 1)],
          hashtag_timestamps = [(''ai'', [100, 200, 650, 700]), (''other'', [660])],
          trend_threshold = 5\<rparr>"
  have s5: "sorted (map c_time_at_cleanup (?cs5 @ [?c]))" by simp
  have s4: "sorted (map c_time_at_cleanup (?cs4 @ [?c]))" by simp
  have r5: "run_calls (?cs5 @ [?c]) (new_trend_detector 10) = Inr ?td5" by code_simp
  have r4: "run_calls (?cs4 @ [?c]) (new_trend_detector 10) = Inr ?td4" by code_simp
  have n: "normalize_hashtag (c_hashtag ?c) = ''ai''" by code_simp
  have m5: "5 \<le> length (recent_mentions ?cs5 ?c)" by code_simp
  have m4: "length (recent_mentions ?cs4 ?c) < 5" by code_simp
  have t5: "int (trending_count ?td5) \<le> 10" by code_simp
  have "normalize_hashtag (c_hashtag ?c) \<in> fst ` set (get_trending_hashtags ?td5 10)"
    using trend_detector_window [OF s5, of ?td5 10] r5 m5 t5 by (simp only: simp_thms)
  moreover have "normalize_hashtag (c_hashtag ?c) \<notin> fst ` set (get_trending_hashtags ?td4 10)"
    using trend_detector_window [OF s4, of ?td4 10] r4 m4 by (simp only: simp_thms)
  ultimately show ?thesis using r5 r4 by (simp only: n simp_thms)
qed

section \<open>Properties of storing real-time posts\<close>

lemma store_rows:
  "realtime_posts (store_realtime_post env d db) =
     filter (\<lambda>r. r_post_id r \<noteq> stored_post_id env d) (realtime_posts db)
       @ [stored_row env d (next_id db)]"
  by (simp add: store_realtime_post_def insert_or_replace_realtime_def stored_post_id_def
      stored_row_def next_id_def Let_def)

lemma stored_row_post_id: "r_post_id (stored_row env d n) = stored_post_id env d"
  by (simp add: stored_row_def stored_post_id_def Let_def)

lemma rows_with_store_same:
  "rows_with (stored_post_id env d) (store_realtime_post env d db) = [stored_row env d (next_id db)]"
  by (simp add: rows_with_def store_rows stored_row_post_id)

lemma rows_with_store_other:
  "pid \<noteq> stored_post_id env d \<Longrightarrow>
     rows_with pid (store_realtime_post env d db) = rows_with pid db"
proof -
  assume a: "pid \<noteq> stored_post_id env d"
  have "filter (\<lambda>r. r_post_id r = pid) (filter (\<lambda>r. r_post_id r \<noteq> stored_post_id env d) xs)
        = filter (\<lambda>r. r_post_id r = pid) xs" for xs
    using a by (induction xs) auto
  then show ?thesis using a by (simp add: rows_with_def store_rows stored_row_post_id)
qed

lemma store_preserves_unique:
  "one_row_per_post_id db \<Longrightarrow> one_row_per_post_id (store_realtime_post env d db)"
  by (auto simp: one_row_per_post_id_def store_rows stored_row_post_id distinct_map_filter)

lemma carried_stored: "carried_post_id d = Some pid \<Longrightarrow> stored_post_id env d = pid"
  by (auto simp: carried_post_id_def stored_post_id_def get_or_def split: option.splits)

text \<open>
  C5. For every pair of \<open>store_realtime_post\<close> calls whose post data carries the same
  \<open>post_id\<close>, the table \<open>realtime_posts\<close> afterwards contains exactly one row for that
  \<open>post_id\<close>, and that row holds the field values computed from the second call (last
  write wins); every call preserves the invariant of one row per \<open>post_id\<close>, and leaves
  exactly one row, its own, under the \<open>post_id\<close> it stores.
\<close>

theorem store_realtime_post_upsert:
  "(carried_post_id d1 = Some pid \<and> carried_post_id d2 = Some pid \<longrightarrow>
      rows_with pid (store_realtime_post env2 d2 (store_realtime_post env1 d1 db))
        = [stored_row env2 d2 (next_id (store_realtime_post env1 d1 db))])
   \<and> (one_row_per_post_id db \<longrightarrow> one_row_per_post_id (store_realtime_post env1 d1 db))
   \<and> rows_with (stored_post_id env1 d1) (store_realtime_post env1 d1 db)
        = [stored_row env1 d1 (next_id db)]"
  using rows_with_store_same [of env2 d2 "store_realtime_post env1 d1 db"]
    carried_stored [of d2 pid env2] store_preserves_unique [of db env1 d1]
    rows_with_store_same [of env1 d1 db]
  by auto

text \<open>
  Two microblogging posts with the id \<open>t1\<close>, stored one after the other in an empty
  table: one row remains, with the text, score and creation time of the second.
\<close>

theorem store_realtime_post_upsert_witness:
  "rows_with ''t1''
     (store_realtime_post
        \<lparr>e_json_dumps = (\<lambda>xs. ''['' @ quoted ''#ai'' @ '']''), e_synthetic_id = ''realtime_2.5'',
         e_now_isoformat = ''2024-01-01T00:10:00'', e_current_timestamp = 2000\<rparr>
        \<lparr>ri_platform = Some ''Twitter'',
         ri_post_data = Some (empty_post\<lparr>p_post_id := Some ''t1'', p_text := Some ''more #ai'',
                                          p_likes := Some 7\<rparr>)\<rparr>
        (store_realtime_post
           \<lparr>e_json_dumps = (\<lambda>xs. ''['' @ quoted ''#ai'' @ '']''), e_synthetic_id = ''realtime_1.5'',
            e_now_isoformat = ''2024-01-01T00:00:00'', e_current_timestamp = 1000\<rparr>
           \<lparr>ri_platform = Some ''Twitter'',
            ri_post_data = Some (empty_post\<lparr>p_post_id := Some ''t1'', p_text := Some ''hello #ai'',
                                             p_likes := Some 3, p_retweets := Some 1\<rparr>)\<rparr>
           \<lparr>realtime_posts = [], realtime_seq = 0\<rparr>))
   = [\<lparr>r_id = 2, r_platform = ''twitter'', r_post_id = ''t1'', r_content = Some ''more #ai'',
       r_timestamp = Some ''2024-01-01T00:10:00'', r_engagement_score = 7,
       r_hashtags = Some (''['' @ quoted ''#ai'' @ '']''), r_created_at = 2000\<rparr>]
   \<and> one_row_per_post_id
      (store_realtime_post
           \<lparr>e_json_dumps = (\<lambda>xs. ''['' @ quoted ''#ai'' @ '']''), e_synthetic_id = ''realtime_1.5'',
            e_now_isoformat = ''2024-01-01T00:00:00'', e_current_timestamp = 1000\<rparr>
           \<lparr>ri_platform = Some ''Twitter'',
            ri_post_data = Some (empty_post\<lparr>p_post_id := Some ''t1'', p_text := Some ''hello #ai'',
                                             p_likes := Some 3, p_retweets := Some 1\<rparr>)\<rparr>
           \<lparr>realtime_posts = [], realtime_seq = 0\<rparr>)"
proof -
  let ?env1 = "\<lparr>e_json_dumps = (\<lambda>xs. ''['' @ quoted ''#ai'' @ '']''), e_synthetic_id = ''realtime_1.5'',
            e_now_isoformat = ''2024-01-01T00:00:00'', e_current_timestamp = 1000\<rparr>"
  let ?env2 = "\<lparr>e_json_dumps = (\<lambda>xs. ''['' @ quoted ''#ai'' @ '']''), e_synthetic_id = ''realtime_2.5'',
         e_now_isoformat = ''2024-01-01T00:10:00'', e_current_timestamp = 2000\<rparr>"
  let ?d1 = "\<lparr>ri_platform = Some ''Twitter'',
            ri_post_data = Some (empty_post\<lparr>p_post_id := Some ''t1'', p_text := Some ''hello #ai'',
                                             p_likes := Some 3, p_retweets := Some 1\<rparr>)\<rparr>"
  let ?d2 = "\<lparr>ri_platform = Some ''Twitter'',
         ri_post_data = Some (empty_post\<lparr>p_post_id := Some ''t1'', p_text := Some ''more #ai'',
                                          p_likes := Some 7\<rparr>)\<rparr>"
  let ?db = "\<lparr>realtime_posts = [], realtime_seq = 0\<rparr>"
  have c1: "carried_post_id ?d1 = Some ''t1''" and c2: "carried_post_id ?d2 = Some ''t1''"
    by (simp_all add: carried_post_id_def)
  have u: "one_row_per_post_id ?db" by (simp add: one_row_per_post_id_def)
  have row: "stored_row ?env2 ?d2 (next_id (store_realtime_post ?env1 ?d1 ?db))
    = \<lparr>r_id = 2, r_platform = ''twitter'', r_post_id = ''t1'', r_content = Some ''more #ai'',
       r_timestamp = Some ''2024-01-01T00:10:00'', r_engagement_score = 7,
       r_hashtags = Some (''['' @ quoted ''#ai'' @ '']''), r_created_at = 2000\<rparr>"
    by code_simp
  show ?thesis
    using store_realtime_post_upsert [of ?d1 "''t1''" ?d2 ?env2 ?env1 ?db] c1 c2 u
    by (simp only: row simp_thms)
qed


section \<open>Properties of the trending hashtags in storage\<close>













section \<open>Properties of loading the configuration\<close>

lemma first_load:
  "fs p = None \<Longrightarrow>
     load_from_file ph p fs
       = (Inr create_default_config_obj, fs(p \<mapsto> JsonText (default_config ph)))"
  by (simp add: load_from_file_def create_default_config_def)

lemma config_of_default: "config_of_json (default_config ph) = Inr (placeholder_config ph)"
  by (simp add: config_of_json_def default_config_def placeholder_config_def
      create_default_config_obj_def TwitterConfig_from_dict_def YouTubeConfig_from_dict_def
      json_get_def bind_err_def)

lemma second_load:
  "load_from_file ph p (fs(p \<mapsto> JsonText (default_config ph)))
     = (Inr (placeholder_config ph), fs(p \<mapsto> JsonText (default_config ph)))"
  by (simp add: load_from_file_def config_of_default)

lemma placeholder_config_differs:
  assumes "ph_bearer_token ph \<noteq> [] \<or> ph_api_key ph \<noteq> [] \<or> ph_api_secret ph \<noteq> []
           \<or> ph_access_token ph \<noteq> [] \<or> ph_access_token_secret ph \<noteq> []
           \<or> ph_youtube_api_key ph \<noteq> []"
  shows "placeholder_config ph \<noteq> create_default_config_obj"
  using assms by (auto simp add: placeholder_config_def create_default_config_obj_def)

lemma default_credentials_empty:
  "cfg_twitter create_default_config_obj =
     \<lparr>tw_bearer_token = JStr [], tw_api_key = JStr [], tw_api_secret = JStr [],
      tw_access_token = JStr [], tw_access_token_secret = JStr []\<rparr>
   \<and> cfg_youtube create_default_config_obj = \<lparr>yt_api_key = JStr []\<rparr>"
  by (simp add: create_default_config_obj_def)

lemma placeholder_credentials:
  "cfg_twitter (placeholder_config ph) =
     \<lparr>tw_bearer_token = JStr (ph_bearer_token ph), tw_api_key = JStr (ph_api_key ph),
      tw_api_secret = JStr (ph_api_secret ph), tw_access_token = JStr (ph_access_token ph),
      tw_access_token_secret = JStr (ph_access_token_secret ph)\<rparr>
   \<and> cfg_youtube (placeholder_config ph) = \<lparr>yt_api_key = JStr (ph_youtube_api_key ph)\<rparr>"
  by (simp add: placeholder_config_def)

text \<open>
  C10. Starting from an absent configuration file, \<open>load_from_file\<close> is not idempotent:
  the first call writes the default file containing the placeholder credential literals
  and returns a configuration whose credential fields are all empty strings; a second
  call on the file now present leaves it as it is and returns those literals as the
  credentials, so the two calls yield different configurations.
\<close>

theorem load_from_file_not_idempotent:
  assumes "fs config_path = None"
    and "ph_bearer_token ph \<noteq> [] \<or> ph_api_key ph \<noteq> [] \<or> ph_api_secret ph \<noteq> []
         \<or> ph_access_token ph \<noteq> [] \<or> ph_access_token_secret ph \<noteq> []
         \<or> ph_youtube_api_key ph \<noteq> []"
  shows "fst (load_from_file ph config_path fs) = Inr create_default_config_obj
    \<and> snd (load_from_file ph config_path fs) config_path = Some (JsonText (default_config ph))
    \<and> load_from_file ph config_path (snd (load_from_file ph config_path fs))
        = (Inr (placeholder_config ph), snd (load_from_file ph config_path fs))
    \<and> cfg_twitter create_default_config_obj =
        \<lparr>tw_bearer_token = JStr [], tw_api_key = JStr [], tw_api_secret = JStr [],
         tw_access_token = JStr [], tw_access_token_secret = JStr []\<rparr>
    \<and> cfg_youtube create_default_config_obj = \<lparr>yt_api_key = JStr []\<rparr>
    \<and> cfg_twitter (placeholder_config ph) =
        \<lparr>tw_bearer_token = JStr (ph_bearer_token ph), tw_api_key = JStr (ph_api_key ph),
         tw_api_secret = JStr (ph_api_secret ph), tw_access_token = JStr (ph_access_token ph),
         tw_access_token_secret = JStr (ph_access_token_secret ph)\<rparr>
    \<and> cfg_youtube (placeholder_config ph) = \<lparr>yt_api_key = JStr (ph_youtube_api_key ph)\<rparr>
    \<and> placeholder_config ph \<noteq> create_default_config_obj"
  using first_load [of fs config_path ph] assms(1) second_load [of ph config_path fs]
    placeholder_config_differs [OF assms(2)] default_credentials_empty
    placeholder_credentials [of ph]
  by simp

text \<open>
  With no file at all and six inert literals: the first call returns the empty bearer
  token, the second the literal.
\<close>

theorem load_from_file_not_idempotent_witness:
  "fst (load_from_file
       \<lparr>ph_bearer_token = ''BEARER'', ph_api_key = ''KEY'', ph_api_secret = ''SECRET'',
        ph_access_token = ''TOKEN'', ph_access_token_secret = ''TOKEN-SECRET'',
        ph_youtube_api_key = ''YT-KEY''\<rparr>
       ''config.json'' (\<lambda>p. None)) = Inr create_default_config_obj
   \<and> tw_bearer_token (cfg_twitter create_default_config_obj) = JStr []
   \<and> fst (load_from_file
       \<lparr>ph_bearer_token = ''BEARER'', ph_api_key = ''KEY'', ph_api_secret = ''SECRET'',
        ph_access_token = ''TOKEN'', ph_access_token_secret = ''TOKEN-SECRET'',
        ph_youtube_api_key = ''YT-KEY''\<rparr>
       ''config.json''
       (snd (load_from_file
          \<lparr>ph_bearer_token = ''BEARER'', ph_api_key = ''KEY'', ph_api_secret = ''SECRET'',
           ph_access_token = ''TOKEN'', ph_access_token_secret = ''TOKEN-SECRET'',
           ph_youtube_api_key = ''YT-KEY''\<rparr>
          ''config.json'' (\<lambda>p. None))))
     = Inr (placeholder_config
       \<lparr>ph_bearer_token = ''BEARER'', ph_api_key = ''KEY'', ph_api_secret = ''SECRET'',
        ph_access_token = ''TOKEN'', ph_access_token_secret = ''TOKEN-SECRET'',
        ph_youtube_api_key = ''YT-KEY''\<rparr>)
   \<and> tw_bearer_token (cfg_twitter (placeholder_config
       \<lparr>ph_bearer_token = ''BEARER'', ph_api_key = ''KEY'', ph_api_secret = ''SECRET'',
        ph_access_token = ''TOKEN'', ph_access_token_secret = ''TOKEN-SECRET'',
        ph_youtube_api_key = ''YT-KEY''\<rparr>)) = JStr ''BEARER''"
proof -
  let ?ph = "\<lparr>ph_bearer_token = ''BEARER'', ph_api_key = ''KEY'', ph_api_secret = ''SECRET'',
        ph_access_token = ''TOKEN'', ph_access_token_secret = ''TOKEN-SECRET'',
        ph_youtube_api_key = ''YT-KEY''\<rparr>"
  have a: "(\<lambda>p. None :: file_content option) ''config.json'' = None" by simp
  have b: "ph_bearer_token ?ph \<noteq> [] \<or> ph_api_key ?ph \<noteq> [] \<or> ph_api_secret ?ph \<noteq> []
         \<or> ph_access_token ?ph \<noteq> [] \<or> ph_access_token_secret ?ph \<noteq> []
         \<or> ph_youtube_api_key ?ph \<noteq> []" by simp
  show ?thesis
    using load_from_file_not_idempotent [of "\<lambda>p. None" "''config.json''" ?ph] a b by simp
qed

section \<open>Properties of the insights\<close>

lemma round2_int: "round2 (real_of_int n) = real_of_int n"
proof -
  have "real_of_int n * 100 = real_of_int (n * 100)" by simp
  then have "round_half_even (real_of_int n * 100) = n * 100"
    unfolding round_half_even_def Let_def by (simp only: floor_of_int) simp
  then show ?thesis by (simp add: round2_def)
qed

lemma avg_one: "rounded_mean [real_of_int n] = real_of_int n"
  by (simp add: rounded_mean_def statistics_mean_def round2_int)

lemma report_twitter_thresholds_agree:
  "filter (\<lambda>i. \<exists>n v. i = HighEngagement n v \<or> i = LowEngagement n v)
       (generate_platform_insights ''Twitter'' (Some a) d)
   = filter (\<lambda>i. \<exists>n v. i = HighEngagement n v \<or> i = LowEngagement n v) (twitter_insights (Some a) d)"
proof -
  have l: "py_capitalize (py_lower ''Twitter'') = ''Twitter''"
    by (simp add: py_capitalize_def py_lower_def py_lower_char_def py_upper_char_def)
  have f: "filter (\<lambda>i. \<exists>n v. i = HighEngagement n v \<or> i = LowEngagement n v)
             (map (TargetRegion n) ks) = []" for n ks
    by (induction ks) auto
  show ?thesis
    unfolding generate_platform_insights_def twitter_insights_def Let_def l
    by (auto simp: f split: option.splits)
qed

text \<open>
  C2 fails on the code. For the video platform with one stored post of 200 likes the
  average engagement is 200: the report emits the high-engagement insight, since its
  threshold is 100 for every platform, while the analyzer's video block, whose thresholds
  are 500 and 100, emits no engagement insight on the same data.
\<close>

theorem report_youtube_threshold_divergence:
  "report_insights (\<lambda>s. None) ''YouTube''
     [empty_post\<lparr>p_timestamp := Some ''2024-01-01T00:00:00'', p_likes := Some 200,
                 p_comments := Some 0\<rparr>] [] None
     = Inr [HighEngagement ''Youtube'' 200]
   \<and> analyzer_youtube_insights (\<lambda>s. None)
       (report_platform_data ''YouTube''
          [empty_post\<lparr>p_timestamp := Some ''2024-01-01T00:00:00'', p_likes := Some 200,
                      p_comments := Some 0\<rparr>] [])
       None
     = Inr []"
  using avg_one [of 200]
  by (simp add: calculate_percentiles_total report_insights_def analyzer_youtube_insights_def
      report_platform_data_def analyze_engagement_def pd_falsy_def py_lower_def
      py_lower_char_def py_upper_char_def py_capitalize_def engagement_summary_def bind_err_def
      youtube_engagement_def get_or_def empty_post_def generate_platform_insights_def
      youtube_insights_def first_key_def Let_def)

section \<open>Properties of the recommendation engine\<close>

lemma randint_bounds:
  assumes "a \<le> b"
  shows "a \<le> random_randint g i a b \<and> random_randint g i a b \<le> b"
proof -
  have "0 < b - a + 1" using assms by simp
  then have "0 \<le> g i mod (b - a + 1) \<and> g i mod (b - a + 1) < b - a + 1"
    using pos_mod_sign [of "b - a + 1" "g i"] pos_mod_bound [of "b - a + 1" "g i"] by blast
  then show ?thesis unfolding random_randint_def by linarith
qed

lemma uniform_bounds:
  assumes "a \<le> b"
  shows "a \<le> random_uniform g i a b \<and> random_uniform g i a b \<le> b"
proof -
  define u where "u = real_of_int (g i mod 2 ^ 53) / 2 ^ 53"
  have "(0 :: int) < 2 ^ 53" by simp
  then have "0 \<le> g i mod 2 ^ 53 \<and> g i mod 2 ^ 53 < 2 ^ 53"
    using pos_mod_sign [of "2 ^ 53" "g i"] pos_mod_bound [of "2 ^ 53" "g i"] by blast
  then have "0 \<le> real_of_int (g i mod 2 ^ 53) \<and> real_of_int (g i mod 2 ^ 53) \<le> 2 ^ 53"
    by (metis less_imp_le of_int_0_le_iff of_int_le_iff of_int_numeral of_int_power)
  then have u: "0 \<le> u \<and> u \<le> 1" by (simp add: u_def)
  have "0 \<le> (b - a) * u" using assms u by simp
  moreover have "(b - a) * u \<le> b - a"
    using mult_left_mono [of u 1 "b - a"] assms u by simp
  ultimately show ?thesis unfolding random_uniform_def u_def [symmetric] by linarith
qed

lemma round_half_even_lower: "real_of_int m \<le> x \<Longrightarrow> m \<le> round_half_even x"
proof -
  assume "real_of_int m \<le> x"
  then have "m \<le> \<lfloor>x\<rfloor>" by (simp add: le_floor_iff)
  then show ?thesis by (auto simp: round_half_even_def Let_def)
qed

lemma round_half_even_upper: "x \<le> real_of_int m \<Longrightarrow> round_half_even x \<le> m"
proof -
  assume a: "x \<le> real_of_int m"
  then have fm: "\<lfloor>x\<rfloor> \<le> m" by (simp add: floor_le_iff)
  show ?thesis
  proof (cases "\<lfloor>x\<rfloor> = m")
    case True
    then have "x = real_of_int \<lfloor>x\<rfloor>" using a of_int_floor_le [of x] by simp
    then have "x - real_of_int \<lfloor>x\<rfloor> < 1 / 2" by simp
    then show ?thesis using True by (simp add: round_half_even_def Let_def)
  next
    case False
    then have "\<lfloor>x\<rfloor> + 1 \<le> m" using fm by simp
    then show ?thesis by (auto simp: round_half_even_def Let_def)
  qed
qed

lemma round2_bounds:
  assumes "real_of_int lo / 100 \<le> x" "x \<le> real_of_int hi / 100"
  shows "real_of_int lo / 100 \<le> round2 x \<and> round2 x \<le> real_of_int hi / 100"
proof -
  have "real_of_int lo \<le> x * 100" "x * 100 \<le> real_of_int hi" using assms by simp_all
  then have "lo \<le> round_half_even (x * 100)" "round_half_even (x * 100) \<le> hi"
    using round_half_even_lower round_half_even_upper by blast+
  then have "real_of_int lo \<le> real_of_int (round_half_even (x * 100))"
    "real_of_int (round_half_even (x * 100)) \<le> real_of_int hi" by simp_all
  then show ?thesis by (simp add: round2_def divide_right_mono)
qed

lemma mock_recommendation_ok:
  "is_mock (mock_recommendation g pos i) \<and> in_ranges (5 / 10) (8 / 10) (mock_recommendation g pos i)"
proof -
  have u: "5 / 10 \<le> random_uniform g (pos + 4) (5 / 10) (8 / 10)
        \<and> random_uniform g (pos + 4) (5 / 10) (8 / 10) \<le> 8 / 10"
    using uniform_bounds [of "5 / 10" "8 / 10" g "pos + 4"] by simp
  have "real_of_int 50 / 100 \<le> round2 (random_uniform g (pos + 4) (5 / 10) (8 / 10))
      \<and> round2 (random_uniform g (pos + 4) (5 / 10) (8 / 10)) \<le> real_of_int 80 / 100"
    using u by (intro round2_bounds) simp_all
  moreover have "60 \<le> random_randint g (pos + 5) 60 600 \<and> random_randint g (pos + 5) 60 600 \<le> 600"
    using randint_bounds [of 60 600] by simp
  ultimately show ?thesis
    by (simp add: mock_recommendation_def is_mock_def in_ranges_def Let_def)
qed

lemma mock_loop_ok:
  "length (mock_loop g pos is) = length is
   \<and> (\<forall>r \<in> set (mock_loop g pos is). is_mock r \<and> in_ranges (5 / 10) (8 / 10) r)"
proof (induction "is" arbitrary: pos)
  case Nil
  then show ?case by simp
next
  case (Cons i "is")
  then show ?case
    using Cons.IH [of "pos + 6"] mock_recommendation_ok [of g pos i] by simp
qed

lemma make_recommendation_ok:
  "\<not> is_mock (fst (make_recommendation g pos t i))
   \<and> in_ranges (7 / 10) (95 / 100) (fst (make_recommendation g pos t i))"
proof -
  have c: "real_of_int 70 / 100 \<le> round2 (random_uniform g k (7 / 10) (95 / 100))
      \<and> round2 (random_uniform g k (7 / 10) (95 / 100)) \<le> real_of_int 95 / 100" for k
    using uniform_bounds [of "7 / 10" "95 / 100" g k] by (intro round2_bounds) simp_all
  have w: "60 \<le> random_randint g k 60 600 \<and> random_randint g k 60 600 \<le> 600" for k
    using randint_bounds [of 60 600] by simp
  show ?thesis
    using c w by (simp add: make_recommendation_def is_mock_def in_ranges_def Let_def split: prod.splits)
qed

lemma recommendations_loop_ok:
  "length (fst (recommendations_loop g pos t is)) = length is
   \<and> (\<forall>r \<in> set (fst (recommendations_loop g pos t is)).
         \<not> is_mock r \<and> in_ranges (7 / 10) (95 / 100) r)"
proof (induction "is" arbitrary: pos)
  case Nil
  then show ?case by simp
next
  case (Cons i "is")
  then show ?case
    using Cons.IH [of "snd (make_recommendation g pos t i)"] make_recommendation_ok [of g pos t i]
    by simp
qed

lemma recommendations_unavailable:
  assumes "unavailable storage"
  shows "get_user_recommendations g jl storage user_id count
     = generate_mock_recommendations g 0 count"
  using assms
  by (simp add: get_user_recommendations_def get_personal_viewing_history_def bind_err_def)

lemma recommendations_available:
  assumes "\<not> unavailable storage"
  shows "\<exists>t. get_user_recommendations g jl storage user_id count
     = fst (generate_recommendations g 0 t count)"
proof -
  obtain vh where vh: "get_personal_viewing_history storage user_id 50 = Inr vh"
    using assms by (simp add: get_personal_viewing_history_def)
  obtain prefs where prefs: "get_user_preferences storage user_id = Inr prefs"
    using assms by (simp add: get_user_preferences_def)
  let ?t = "extract_preferred_topics jl prefs vh"
  have len: "length (fst (generate_recommendations g 0 ?t count)) = nat count"
    using recommendations_loop_ok [of g 0 ?t "[0..<nat count]"]
    by (simp add: generate_recommendations_def)
  obtain recs p where gr: "generate_recommendations g 0 ?t count = (recs, p)"
    by (cases "generate_recommendations g 0 ?t count")
  have "get_user_recommendations g jl storage user_id count = recs"
  proof (cases "recs = []")
    case True
    then have "nat count = 0" using len gr by simp
    then have "generate_mock_recommendations g p count = []"
      by (simp add: generate_mock_recommendations_def)
    then show ?thesis using True vh prefs gr
      by (simp add: get_user_recommendations_def bind_err_def Let_def)
  next
    case False
    then show ?thesis using vh prefs gr
      by (simp add: get_user_recommendations_def bind_err_def Let_def)
  qed
  then have "get_user_recommendations g jl storage user_id count
      = fst (generate_recommendations g 0 ?t count)"
    using gr by simp
  then show ?thesis by blast
qed

text \<open>
  C1, as stated, fails: with no stored preferences and no viewing history the engine
  does not fall back to mock recommendations. For \<open>count = 1\<close> and a draw of three quarters
  it returns the recommendation \<open>rec_0_1744\<close> of the preference-based generator, built
  from the default hashtag, whose confidence score 0.89 lies outside \<open>[0.5, 0.8]\<close>.
\<close>

theorem recommendations_no_data_counterexample:
  "get_user_recommendations (\<lambda>i. 6755399441055744) (\<lambda>s. None)
     \<lparr>personal_viewing = [], user_preferences = [], unavailable = False\<rparr> ''default_user'' 1
   = [\<lparr>rec_id = ''rec_0_1744'', rec_platform = ''Twitter'',
       rec_title = ''Recommended content about #technology on Twitter'',
       rec_description = ''Based on your interest in #technology and similar content'',
       rec_url = ''https://twitter.com/recommended/0'',
       rec_recommended_for = [], rec_confidence_score = 89 / 100,
       rec_estimated_watch_time = 245\<rparr>]
   \<and> \<not> (89 / 100 \<le> (8 / 10 :: real))"
proof -
  have "get_user_recommendations (\<lambda>i. 6755399441055744) (\<lambda>s. None)
     \<lparr>personal_viewing = [], user_preferences = [], unavailable = False\<rparr> ''default_user'' 1
   = [\<lparr>rec_id = ''rec_0_1744'', rec_platform = ''Twitter'',
       rec_title = ''Recommended content about #technology on Twitter'',
       rec_description = ''Based on your interest in #technology and similar content'',
       rec_url = ''https://twitter.com/recommended/0'',
       rec_recommended_for = [], rec_confidence_score = 89 / 100,
       rec_estimated_watch_time = 245\<rparr>]"
    by code_simp
  then show ?thesis by simp
qed

text \<open>
  C1, amended. For every \<open>user_id\<close> and every \<open>count\<close>, \<open>get_user_recommendations\<close> returns
  exactly \<open>count\<close> recommendations (none for a negative \<open>count\<close>), each with
  \<open>estimated_watch_time\<close> in \<open>[60, 600]\<close> seconds. When retrieval from storage fails they
  are mock recommendations, each with \<open>confidence_score\<close> in \<open>[0.5, 0.8]\<close>. When retrieval
  succeeds, also for a user with no stored preferences and no viewing history, they
  come from the preference-based generator (not mock), each with \<open>confidence_score\<close> in
  \<open>[0.7, 0.95]\<close>.
\<close>

theorem get_user_recommendations_ranges:
  "length (get_user_recommendations g jl storage user_id count) = nat count
   \<and> (unavailable storage \<longrightarrow>
        (\<forall>r \<in> set (get_user_recommendations g jl storage user_id count).
           is_mock r \<and> in_ranges (5 / 10) (8 / 10) r))
   \<and> (\<not> unavailable storage \<longrightarrow>
        (\<forall>r \<in> set (get_user_recommendations g jl storage user_id count).
           \<not> is_mock r \<and> in_ranges (7 / 10) (95 / 100) r))"
proof (cases "unavailable storage")
  case True
  then show ?thesis
    using recommendations_unavailable [OF True, of g jl user_id count]
      mock_loop_ok [of g 0 "[0..<nat count]"]
    by (simp add: generate_mock_recommendations_def)
next
  case False
  then obtain t where "get_user_recommendations g jl storage user_id count
     = fst (generate_recommendations g 0 t count)"
    using recommendations_available by blast
  then show ?thesis
    using False recommendations_loop_ok [of g 0 t "[0..<nat count]"]
    by (simp add: generate_recommendations_def)
qed

text \<open>
  A storage that fails, with \<open>count = 2\<close>: two mock recommendations. A storage holding one
  preference and one viewing record, with \<open>count = 1\<close>: one recommendation of the generator.
\<close>

theorem get_user_recommendations_ranges_witness:
  "map rec_id (get_user_recommendations (\<lambda>i. 6755399441055744) (\<lambda>s. if s = ''['' @ quoted ''#Python'' @ '']'' then Some [''#Python''] else None)
       \<lparr>personal_viewing = [], user_preferences = [], unavailable = True\<rparr> ''default_user'' 2)
     = [''mock_rec_0_1744'', ''mock_rec_1_1744'']
   \<and> list_all (\<lambda>r. is_mock r \<and> in_ranges (5 / 10) (8 / 10) r)
       (get_user_recommendations (\<lambda>i. 6755399441055744) (\<lambda>s. if s = ''['' @ quoted ''#Python'' @ '']'' then Some [''#Python''] else None)
          \<lparr>personal_viewing = [], user_preferences = [], unavailable = True\<rparr> ''default_user'' 2)
   \<and> map rec_id (get_user_recommendations (\<lambda>i. 6755399441055744) (\<lambda>s. if s = ''['' @ quoted ''#Python'' @ '']'' then Some [''#Python''] else None)
       \<lparr>personal_viewing =
        [\<lparr>v_platform = ''youtube'', v_content_id = ''v1'', v_user_id = ''default_user'',
          v_watch_duration = 120, v_timestamp = 1000, v_engagement_type = ''view'',
          v_tags = Some (''['' @ quoted ''#Python'' @ '']'')\<rparr>],
      user_preferences =
        [\<lparr>pr_user_id = ''default_user'', pr_preference_type = ''hashtag'',
          pr_preference_value = ''data'', pr_frequency = 3, pr_last_used = 900\<rparr>],
      unavailable = False\<rparr> ''default_user'' 1)
     = [''rec_0_1744'']
   \<and> list_all (\<lambda>r. \<not> is_mock r \<and> in_ranges (7 / 10) (95 / 100) r)
       (get_user_recommendations (\<lambda>i. 6755399441055744) (\<lambda>s. if s = ''['' @ quoted ''#Python'' @ '']'' then Some [''#Python''] else None)
          \<lparr>personal_viewing =
        [\<lparr>v_platform = ''youtube'', v_content_id = ''v1'', v_user_id = ''default_user'',
          v_watch_duration = 120, v_timestamp = 1000, v_engagement_type = ''view'',
          v_tags = Some (''['' @ quoted ''#Python'' @ '']'')\<rparr>],
      user_preferences =
        [\<lparr>pr_user_id = ''default_user'', pr_preference_type = ''hashtag'',
          pr_preference_value = ''data'', pr_frequency = 3, pr_last_used = 900\<rparr>],
      unavailable = False\<rparr> ''default_user'' 1)"
proof -
  let ?g = "\<lambda>i :: nat. 6755399441055744 :: int"
  let ?jl = "(\<lambda>s. if s = ''['' @ quoted ''#Python'' @ '']'' then Some [''#Python''] else None)"
  let ?down = "\<lparr>personal_viewing = [], user_preferences = [], unavailable = True\<rparr>"
  let ?up = "\<lparr>personal_viewing =
        [\<lparr>v_platform = ''youtube'', v_content_id = ''v1'', v_user_id = ''default_user'',
          v_watch_duration = 120, v_timestamp = 1000, v_engagement_type = ''view'',
          v_tags = Some (''['' @ quoted ''#Python'' @ '']'')\<rparr>],
      user_preferences =
        [\<lparr>pr_user_id = ''default_user'', pr_preference_type = ''hashtag'',
          pr_preference_value = ''data'', pr_frequency = 3, pr_last_used = 900\<rparr>],
      unavailable = False\<rparr>"
  have d: "unavailable ?down" and u: "\<not> unavailable ?up" by simp_all
  have i1: "map rec_id (get_user_recommendations ?g ?jl ?down ''default_user'' 2)
      = [''mock_rec_0_1744'', ''mock_rec_1_1744'']"
    by code_simp
  have i2: "map rec_id (get_user_recommendations ?g ?jl ?up ''default_user'' 1) = [''rec_0_1744'']"
    by code_simp
  have "list_all (\<lambda>r. is_mock r \<and> in_ranges (5 / 10) (8 / 10) r)
          (get_user_recommendations ?g ?jl ?down ''default_user'' 2)"
    using get_user_recommendations_ranges [of ?g ?jl ?down "''default_user''" 2] d
    unfolding list_all_iff by blast
  moreover have "list_all (\<lambda>r. \<not> is_mock r \<and> in_ranges (7 / 10) (95 / 100) r)
          (get_user_recommendations ?g ?jl ?up ''default_user'' 1)"
    using get_user_recommendations_ranges [of ?g ?jl ?up "''default_user''" 1] u
    unfolding list_all_iff by blast
  ultimately show ?thesis using i1 i2 by (simp only: simp_thms)
qed

end
